theory Spec2Isabelle
  imports Main "HOL-Library.Char_ord" "HOL-Library.List_Lexorder" "HOL-Library.Product_Lexorder"
begin

section \<open>Python values and exceptions\<close>

text \<open>
  The exceptions of \<^verbatim>\<open>jira_dataframes.py\<close> that the model follows: the two
  \<^verbatim>\<open>raise ValueError\<close> statements of the source, and the exceptions the
  interpreter and pandas raise on the paths the source leaves unguarded.
\<close>

datatype error = ValueError | KeyError | TypeError | AttributeError | IndexError

text \<open>
  \<^verbatim>\<open>ifnull\<close> accepts any object, so its argument is a dynamically typed value.
  \<^verbatim>\<open>type(value)\<close> returns a type object, which is a value of its own.
\<close>

datatype pytype = NoneType | IntType | StrType | ListType | TypeType

datatype pyval = PyNone | PyInt int | PyStr string | PyList "pyval list" | PyType pytype

fun type_py :: "pyval \<Rightarrow> pyval" where
  "type_py PyNone = PyType NoneType"
| "type_py (PyInt n) = PyType IntType"
| "type_py (PyStr s) = PyType StrType"
| "type_py (PyList xs) = PyType ListType"
| "type_py (PyType t) = PyType TypeType"

text \<open>\<^verbatim>\<open>x is None\<close>: \<^verbatim>\<open>None\<close> is a singleton, so identity with it is equality.\<close>

definition is_None :: "pyval \<Rightarrow> bool" where
  "is_None x = (x = PyNone)"

text \<open>
  \<^verbatim>\<open>
  def ifnull(self,value,null_value=None):
      return_value = null_value
      try:
          if type(value) is None:
              return_value = value
          else:
              return_value = null_value
      except:
          return_value = null_value
      return return_value
  \<close>
  Nothing in the \<^verbatim>\<open>try\<close> block raises, so the handler is never entered.
\<close>

definition ifnull :: "pyval \<Rightarrow> pyval \<Rightarrow> pyval" where
  "ifnull value null_value =
     (if is_None (type_py value) then value else null_value)"

section \<open>Data frames\<close>

text \<open>
  A Python \<^verbatim>\<open>str\<close> is modelled by its UTF-8 encoding, a \<^typ>\<open>string\<close>: replacing a
  substring and comparing lexicographically give the same result on the encoding as on
  the code points. A cell of a frame is missing (\<^verbatim>\<open>NaN\<close>), a number, a string, or
  a timestamp (kept as the text \<^verbatim>\<open>dateutil\<close> parsed it from).
\<close>

datatype cell = NaN | Num int | Str string | DateTime string

text \<open>
  A row maps column labels to cells; a label without an entry reads as \<^verbatim>\<open>NaN\<close>, which
  is what pandas stores where a row has no value for a column of its frame. Row labels
  (the index) are left out: \<^verbatim>\<open>to_csv(index=False)\<close> does not persist them and
  \<^verbatim>\<open>reset_index\<close> renumbers them.
\<close>

type_synonym row = "(string \<times> cell) list"

record dataframe =
  columns :: "string list"
  rows :: "row list"

definition cell_at :: "string \<Rightarrow> row \<Rightarrow> cell" where
  "cell_at c r = (case map_of r c of None \<Rightarrow> NaN | Some v \<Rightarrow> v)"

text \<open>\<^verbatim>\<open>pd.DataFrame()\<close>: no columns, no rows.\<close>

definition empty_dataframe :: dataframe where
  "empty_dataframe = \<lparr>columns = [], rows = []\<rparr>"

text \<open>\<^verbatim>\<open>df[c]\<close>: the cells of column \<open>c\<close>, a \<^verbatim>\<open>KeyError\<close> when the frame has no such column.\<close>

definition column :: "dataframe \<Rightarrow> string \<Rightarrow> error + cell list" where
  "column df c =
     (if c \<in> set (columns df) then Inr (map (cell_at c) (rows df)) else Inl KeyError)"

text \<open>\<^verbatim>\<open>series.isin(values)\<close>: one truth value per cell; pandas matches \<^verbatim>\<open>NaN\<close> with \<^verbatim>\<open>NaN\<close> here.\<close>

definition isin :: "cell list \<Rightarrow> cell list \<Rightarrow> bool list" where
  "isin series vals = map (\<lambda>x. x \<in> set vals) series"

text \<open>\<^verbatim>\<open>df[mask]\<close>: the rows whose mask entry is true, in their order.\<close>

definition mask_rows :: "dataframe \<Rightarrow> bool list \<Rightarrow> dataframe" where
  "mask_rows df flags = df\<lparr>rows := map fst (filter snd (zip (rows df) flags))\<rparr>"

text \<open>
  \<^verbatim>\<open>pd.concat([a, b], sort=False)\<close>: the rows of \<open>a\<close> followed by those of \<open>b\<close>; the
  columns of \<open>a\<close> followed by the columns only \<open>b\<close> has.
\<close>

definition concat_df :: "dataframe \<Rightarrow> dataframe \<Rightarrow> dataframe" where
  "concat_df a b =
     \<lparr>columns = columns a @ filter (\<lambda>c. c \<notin> set (columns a)) (columns b),
      rows = rows a @ rows b\<rparr>"

text \<open>Keeping the first row of every key value (\<^verbatim>\<open>keep='first'\<close>, the default).\<close>

fun keep_first :: "('a \<Rightarrow> 'k) \<Rightarrow> 'a list \<Rightarrow> 'a list" where
  "keep_first f [] = []"
| "keep_first f (x # xs) = x # keep_first f (filter (\<lambda>y. f y \<noteq> f x) xs)"

text \<open>\<^verbatim>\<open>df.drop_duplicates(c)\<close>; pandas counts two \<^verbatim>\<open>NaN\<close> as duplicates of each other.\<close>

definition drop_duplicates :: "string \<Rightarrow> dataframe \<Rightarrow> error + dataframe" where
  "drop_duplicates c df =
     (if c \<in> set (columns df) then Inr (df\<lparr>rows := keep_first (cell_at c) (rows df)\<rparr>)
      else Inl KeyError)"

text \<open>
  The order \<^verbatim>\<open>sort_values\<close> sorts by: numbers by value, strings and timestamps by
  their text, \<^verbatim>\<open>NaN\<close> after everything else (\<^verbatim>\<open>na_position='last'\<close>). Cells of
  different kinds do not compare in Python: a column holding two kinds raises a
  \<^verbatim>\<open>TypeError\<close>.
\<close>

fun cell_rank :: "cell \<Rightarrow> nat \<times> int \<times> string" where
  "cell_rank (Num n) = (0, n, [])"
| "cell_rank (Str s) = (1, 0, s)"
| "cell_rank (DateTime s) = (2, 0, s)"
| "cell_rank NaN = (3, 0, [])"

definition cell_le :: "cell \<Rightarrow> cell \<Rightarrow> bool" where
  "cell_le a b = (cell_rank a \<le> cell_rank b)"

definition comparable :: "cell \<Rightarrow> cell \<Rightarrow> bool" where
  "comparable a b = (a = NaN \<or> b = NaN \<or> fst (cell_rank a) = fst (cell_rank b))"

definition sortable :: "cell list \<Rightarrow> bool" where
  "sortable cs = (\<forall>a \<in> set cs. \<forall>b \<in> set cs. comparable a b)"

text \<open>
  \<^verbatim>\<open>df.sort_values(c)\<close>, ascending. pandas sorts with an unstable quicksort; the model
  sorts stably, which gives the same frame whenever the keys are distinct, as they are
  after \<^verbatim>\<open>drop_duplicates\<close>.
\<close>

definition sort_values :: "string \<Rightarrow> dataframe \<Rightarrow> error + dataframe" where
  "sort_values c df =
     (if c \<notin> set (columns df) then Inl KeyError
      else if \<not> sortable (map (cell_at c) (rows df)) then Inl TypeError
      else Inr (df\<lparr>rows := sort_key (\<lambda>r. cell_rank (cell_at c r)) (rows df)\<rparr>))"

text \<open>
  \<^verbatim>\<open>df.set_index(c).reset_index()\<close>: column \<open>c\<close> becomes the index and comes back as the
  first column; the cells stay as they are.
\<close>

definition set_index_reset_index :: "string \<Rightarrow> dataframe \<Rightarrow> error + dataframe" where
  "set_index_reset_index c df =
     (if c \<in> set (columns df) then Inr (df\<lparr>columns := c # removeAll c (columns df)\<rparr>)
      else Inl KeyError)"

section \<open>The merge: update_dataframe\<close>

text \<open>
  Modelled from the spec: \<^verbatim>\<open>ist.dataframe_has_rows\<close> belongs to the package
  \<^verbatim>\<open>pyIS.IS_ToolBox\<close>, which is not part of the sources. The merge cases of the spec are
  "present and non-empty", so a frame has rows when it is not \<^verbatim>\<open>None\<close> and holds at
  least one row.
\<close>

definition dataframe_has_rows :: "dataframe option \<Rightarrow> bool" where
  "dataframe_has_rows df = (case df of None \<Rightarrow> False | Some d \<Rightarrow> rows d \<noteq> [])"

text \<open>
  The branch of \<^verbatim>\<open>update_dataframe\<close> for two frames with rows:
  \<^verbatim>\<open>
  issue_keys = list(set(updated_df['issue_key'].tolist()))
  existing_df = existing_df[~existing_df['issue_key'].isin(issue_keys)]
  return_df = pd.concat([updated_df,existing_df],sort=False)
  return_df = return_df.drop_duplicates(key_column)
  return_df = return_df.sort_values(key_column)
  return_df = return_df.set_index(key_column)
  return_df = return_df.reset_index()
  \<close>
\<close>

definition merge_frames :: "dataframe \<Rightarrow> dataframe \<Rightarrow> string \<Rightarrow> error + dataframe" where
  "merge_frames existing_df updated_df key_column =
     (case column updated_df ''issue_key'' of Inl e \<Rightarrow> Inl e | Inr ks \<Rightarrow>
      let issue_keys = remdups ks in
      case column existing_df ''issue_key'' of Inl e \<Rightarrow> Inl e | Inr eks \<Rightarrow>
      let existing_df' = mask_rows existing_df (map Not (isin eks issue_keys));
          return_df = concat_df updated_df existing_df' in
      case drop_duplicates key_column return_df of Inl e \<Rightarrow> Inl e | Inr return_df \<Rightarrow>
      case sort_values key_column return_df of Inl e \<Rightarrow> Inl e | Inr return_df \<Rightarrow>
      set_index_reset_index key_column return_df)"

text \<open>
  \<^verbatim>\<open>update_dataframe(existing_df, updated_df, key_column)\<close>. The last branch only prints
  a message and returns the initial \<^verbatim>\<open>return_df = None\<close>.
\<close>

definition update_dataframe ::
  "dataframe option \<Rightarrow> dataframe option \<Rightarrow> string \<Rightarrow> error + dataframe option" where
  "update_dataframe existing_df updated_df key_column =
     (let existing = dataframe_has_rows existing_df;
          updated = dataframe_has_rows updated_df in
      if updated \<and> existing then
        (case (existing_df, updated_df) of
           (Some e, Some u) \<Rightarrow>
             (case merge_frames e u key_column of Inl err \<Rightarrow> Inl err | Inr d \<Rightarrow> Inr (Some d))
         | _ \<Rightarrow> Inr None)
      else if updated \<and> \<not> existing then Inr updated_df
      else if \<not> updated \<and> existing then Inr existing_df
      else Inr None)"

section \<open>Strings\<close>

text \<open>
  \<^verbatim>\<open>s.replace(old, new)\<close>: every occurrence of \<open>old\<close>, found from the left and not
  overlapping, becomes \<open>new\<close>. With an empty \<open>old\<close> Python puts \<open>new\<close> before every
  character and at the end.
\<close>

function replace :: "string \<Rightarrow> string \<Rightarrow> string \<Rightarrow> string" where
  "replace old new [] = (if old = [] then new else [])"
| "replace old new (c # s) =
     (if old = [] then new @ c # replace old new s
      else if take (length old) (c # s) = old
        then new @ replace old new (drop (length old) (c # s))
        else c # replace old new s)"
  by pat_completeness auto
termination
  by (relation "measure (\<lambda>(old, new, s). length s)") auto

text \<open>\<^verbatim>\<open>sep.join(strings)\<close>.\<close>

fun str_join :: "string \<Rightarrow> string list \<Rightarrow> string" where
  "str_join sep [] = []"
| "str_join sep [x] = x"
| "str_join sep (x # y # ys) = x @ sep @ str_join sep (y # ys)"

text \<open>
  \<^verbatim>\<open>sep.join(value)\<close> on a dynamically typed value: a list of strings is joined, a string
  is joined character by character, anything else raises a \<^verbatim>\<open>TypeError\<close>.
\<close>

fun the_str :: "pyval \<Rightarrow> string option" where
  "the_str (PyStr s) = Some s"
| "the_str _ = None"

definition join :: "string \<Rightarrow> pyval \<Rightarrow> error + string" where
  "join sep v =
     (case v of
        PyList xs \<Rightarrow>
          (if list_all (\<lambda>x. the_str x \<noteq> None) xs
           then Inr (str_join sep (map (\<lambda>x. case the_str x of Some s \<Rightarrow> s | None \<Rightarrow> []) xs))
           else Inl TypeError)
      | PyStr s \<Rightarrow> Inr (str_join sep (map (\<lambda>c. [c]) s))
      | _ \<Rightarrow> Inl TypeError)"

text \<open>
  \<^verbatim>\<open>make_delimit_ready(x)\<close>: the empty string for \<^verbatim>\<open>None\<close> and for the empty string,
  else the replacements of the source in their order. The smart quotes U+201C, U+201D,
  U+2018 and U+2019 are the bytes \<open>E2 80 9C\<close>, \<open>E2 80 9D\<close>, \<open>E2 80 98\<close> and \<open>E2 80 99\<close>;
  the last two patterns are raw strings, a backslash followed by a letter.
\<close>

definition make_delimit_ready :: "string option \<Rightarrow> string" where
  "make_delimit_ready x =
     (case x of
        None \<Rightarrow> []
      | Some s \<Rightarrow>
          if s = [] then []
          else fold (\<lambda>(old, new). replace old new)
            [([CHR 0xE2, CHR 0x80, CHR 0x9C], [CHR 0x22]),
             ([CHR 0xE2, CHR 0x80, CHR 0x9D], [CHR 0x22]),
             ([CHR 0xE2, CHR 0x80, CHR 0x98], [CHR 0x27]),
             ([CHR 0xE2, CHR 0x80, CHR 0x99], [CHR 0x27]),
             ([CHR 0x0C], ''_''),
             ([CHR 0x0D], ''-''),
             ([CHR 0x0A], ''-''),
             ([CHR 0xE2, CHR 0x80, CHR 0x9C], [CHR 0x22]),
             ([CHR 0xE2, CHR 0x80, CHR 0x9D], [CHR 0x22]),
             ([CHR 0xE2, CHR 0x80, CHR 0x98], [CHR 0x27]),
             ([CHR 0xE2, CHR 0x80, CHR 0x99], [CHR 0x27]),
             ([CHR 0x5C, CHR ''r'', CHR 0x5C, CHR ''n''], ''-''),
             ([CHR 0x5C, CHR ''r''], ''---'')] s)"

text \<open>
  \<^verbatim>\<open>string_to_datetime(x)\<close>: the empty string for \<^verbatim>\<open>None\<close> and for the empty string, else
  the timestamp \<^verbatim>\<open>dateutil\<close> parses from the text; Jira sends well-formed timestamps.
\<close>

definition string_to_datetime :: "string option \<Rightarrow> cell" where
  "string_to_datetime x =
     (case x of None \<Rightarrow> Str [] | Some s \<Rightarrow> if s = [] then Str [] else DateTime s)"

section \<open>Records of the remote service\<close>

text \<open>
  The attributes of a Jira issue that \<^verbatim>\<open>data_part_to_dataframe\<close> reads. Attributes
  the source passes through \<^verbatim>\<open>str()\<close> hold that string; attributes that may be
  \<^verbatim>\<open>None\<close> are options. \<open>customfield_10800\<close> holds the names of the stakeholders.
\<close>

record issue =
  key :: string
  summary :: string
  description :: "string option"
  priority :: string
  issuetype :: string
  status_name :: string
  customfield_10800 :: "string list option"
  created :: "string option"
  duedate :: "string option"
  lastViewed :: "string option"
  resolutiondate :: "string option"
  resolution :: string
  aggregatetimespent :: "int option"
  assignee :: string
  reporter :: string
  components :: "string list"
  labels :: "string list"

text \<open>
  A work-log entry and a comment. \<open>author\<close> is \<^verbatim>\<open>author.displayName\<close>, or \<^verbatim>\<open>None\<close> when
  the entry has no author attribute, in which case reading it raises an
  \<^verbatim>\<open>AttributeError\<close>.
\<close>

record worklog =
  worklog_author :: "string option"
  worklog_created :: "string option"
  worklog_started :: "string option"
  worklog_timeSpentSeconds :: int

record comment =
  comment_author :: "string option"
  comment_created :: "string option"
  comment_body :: "string option"

text \<open>The calls of the Jira client the source makes; the client is not part of the sources.\<close>

record jira =
  search_issues :: "string \<Rightarrow> nat \<Rightarrow> issue list"
  worklogs :: "issue \<Rightarrow> worklog list"
  comments :: "issue \<Rightarrow> comment list"

section \<open>The record normalizer: data_part_to_dataframe\<close>

text \<open>
  \<^verbatim>\<open>return_dataframe.loc[i, c] = v\<close>. The frame starts empty and every new row gets the
  label \<^verbatim>\<open>len(return_dataframe) + 1\<close>, so the labels are the positions counted from 1:
  a label within the frame sets a cell of that row, a new label appends a row. A new
  column label is appended to the columns.
\<close>

definition set_cell :: "string \<Rightarrow> cell \<Rightarrow> row \<Rightarrow> row" where
  "set_cell c v r =
     (if c \<in> fst ` set r then map (\<lambda>(k, x). if k = c then (k, v) else (k, x)) r
      else r @ [(c, v)])"

definition loc_set :: "nat \<Rightarrow> string \<Rightarrow> cell \<Rightarrow> dataframe \<Rightarrow> dataframe" where
  "loc_set i c v df =
     (let cols = (if c \<in> set (columns df) then columns df else columns df @ [c]) in
      if 1 \<le> i \<and> i \<le> length (rows df)
      then \<lparr>columns = cols, rows = (rows df)[i - 1 := set_cell c v (rows df ! (i - 1))]\<rparr>
      else \<lparr>columns = cols, rows = rows df @ [[(c, v)]]\<rparr>)"

text \<open>A run of assignments to the row labelled \<open>i\<close>, in the order of the source lines.\<close>

definition loc_set_all :: "nat \<Rightarrow> (string \<times> cell) list \<Rightarrow> dataframe \<Rightarrow> dataframe" where
  "loc_set_all i assignments df = fold (\<lambda>(c, v). loc_set i c v) assignments df"

text \<open>A \<^verbatim>\<open>for\<close> loop whose body may raise: the first exception ends the loop.\<close>

primrec for_each :: "('a \<Rightarrow> 's \<Rightarrow> error + 's) \<Rightarrow> 'a list \<Rightarrow> 's \<Rightarrow> error + 's" where
  "for_each body [] s = Inr s"
| "for_each body (x # xs) s =
     (case body x s of Inl e \<Rightarrow> Inl e | Inr s' \<Rightarrow> for_each body xs s')"

text \<open>The stakeholders field as the value \<^verbatim>\<open>ifnull\<close> receives.\<close>

definition names_py :: "string list option \<Rightarrow> pyval" where
  "names_py x = (case x of None \<Rightarrow> PyNone | Some xs \<Rightarrow> PyList (map PyStr xs))"

definition num_or_nan :: "int option \<Rightarrow> cell" where
  "num_or_nan x = (case x of None \<Rightarrow> NaN | Some n \<Rightarrow> Num n)"

text \<open>
  The body of the loop for the \<^verbatim>\<open>issues\<close> data part. The only expression that can
  raise is the \<^verbatim>\<open>join\<close> of the stakeholders.
\<close>

definition issues_row :: "issue \<Rightarrow> dataframe \<Rightarrow> error + dataframe" where
  "issues_row issue return_dataframe =
     (let i = length (rows return_dataframe) + 1 in
      case join '','' (ifnull (names_py (customfield_10800 issue)) (PyList [PyStr []])) of
        Inl e \<Rightarrow> Inl e
      | Inr stakeholders \<Rightarrow>
          Inr (loc_set_all i
            [(''issue_key'', Str (key issue)),
             (''summary'', Str (summary issue)),
             (''description'', Str (make_delimit_ready (description issue))),
             (''priority'', Str (priority issue)),
             (''issue_type'', Str (issuetype issue)),
             (''status'', Str (status_name issue)),
             (''stakeholders'', Str stakeholders),
             (''create_date'', string_to_datetime (created issue)),
             (''due_date'', string_to_datetime (duedate issue)),
             (''last_viewed'', string_to_datetime (lastViewed issue)),
             (''resolution_date'', string_to_datetime (resolutiondate issue)),
             (''resolution'', Str (resolution issue)),
             (''total_seconds_spent'', num_or_nan (aggregatetimespent issue)),
             (''assignee'', Str (assignee issue)),
             (''reporter'', Str (reporter issue)),
             (''components'', Str (str_join '','' (components issue))),
             (''labels'', Str (str_join '','' (labels issue)))]
            return_dataframe))"

definition component_row :: "issue \<Rightarrow> string \<Rightarrow> dataframe \<Rightarrow> error + dataframe" where
  "component_row issue component return_dataframe =
     (let i = length (rows return_dataframe) + 1 in
      Inr (loc_set_all i
        [(''issue_component_key'', Num (int i)),
         (''issue_key'', Str (key issue)),
         (''component'', Str (make_delimit_ready (Some component)))]
        return_dataframe))"

definition stakeholder_row :: "issue \<Rightarrow> string \<Rightarrow> dataframe \<Rightarrow> error + dataframe" where
  "stakeholder_row issue stakeholder return_dataframe =
     (let i = length (rows return_dataframe) + 1 in
      Inr (loc_set_all i
        [(''issue_stakeholder_key'', Num (int i)),
         (''issue_key'', Str (key issue)),
         (''stakeholder'', Str (make_delimit_ready (Some stakeholder)))]
        return_dataframe))"

definition label_row :: "issue \<Rightarrow> string \<Rightarrow> dataframe \<Rightarrow> error + dataframe" where
  "label_row issue label return_dataframe =
     (let i = length (rows return_dataframe) + 1 in
      Inr (loc_set_all i
        [(''issue_label_key'', Num (int i)),
         (''issue_key'', Str (key issue)),
         (''label'', Str (make_delimit_ready (Some label)))]
        return_dataframe))"

text \<open>
  The work-log loop has no handler: \<^verbatim>\<open>worklog.author.displayName\<close> raises when the entry
  has no author, after the first two cells of the row are set.
\<close>

definition worklog_row :: "issue \<Rightarrow> worklog \<Rightarrow> dataframe \<Rightarrow> error + dataframe" where
  "worklog_row issue worklog return_dataframe =
     (let i = length (rows return_dataframe) + 1 in
      case worklog_author worklog of
        None \<Rightarrow> Inl AttributeError
      | Some displayName \<Rightarrow>
          Inr (loc_set_all i
            [(''issue_worklog_id'', Num (int i)),
             (''issue_key'', Str (key issue)),
             (''author'', Str displayName),
             (''created'', string_to_datetime (worklog_created worklog)),
             (''started'', string_to_datetime (worklog_started worklog)),
             (''seconds_spent'', Num (worklog_timeSpentSeconds worklog))]
            return_dataframe))"

text \<open>
  The comment loop: the \<^verbatim>\<open>try\<close> block sets the first two cells before
  \<^verbatim>\<open>comment.author.displayName\<close> raises the \<^verbatim>\<open>AttributeError\<close>; the handler then sets
  all five cells of the same row.
\<close>

definition comment_row :: "issue \<Rightarrow> comment \<Rightarrow> dataframe \<Rightarrow> error + dataframe" where
  "comment_row issue comment return_dataframe =
     (let i = length (rows return_dataframe) + 1 in
      case comment_author comment of
        Some displayName \<Rightarrow>
          Inr (loc_set_all i
            [(''issue_comments_id'', Num (int i)),
             (''issue_key'', Str (key issue)),
             (''author'', Str displayName),
             (''created'', string_to_datetime (comment_created comment)),
             (''body_text'', Str (make_delimit_ready (comment_body comment)))]
            return_dataframe)
      | None \<Rightarrow>
          (let tried = loc_set_all i
                 [(''issue_comments_id'', Num (int i)),
                  (''issue_key'', Str (key issue))]
                 return_dataframe
           in Inr (loc_set_all i
                [(''issue_comments_id'', Num (int i)),
                 (''issue_key'', Str (key issue)),
                 (''author'', Str ''Unknown''),
                 (''created'', string_to_datetime (comment_created comment)),
                 (''body_text'', Str (make_delimit_ready (comment_body comment)))]
                tried)))"

text \<open>
  \<^verbatim>\<open>data_part_to_dataframe(issues, data_part_name)\<close>, branch by branch; a name without a
  branch raises the \<^verbatim>\<open>ValueError\<close> of the source.
\<close>

definition data_part_to_dataframe :: "jira \<Rightarrow> issue list \<Rightarrow> string \<Rightarrow> error + dataframe" where
  "data_part_to_dataframe client issues data_part_name =
     (let return_dataframe = empty_dataframe in
      if data_part_name = ''issues'' then
        for_each issues_row issues return_dataframe
      else if data_part_name = ''issue_components'' then
        for_each (\<lambda>issue. for_each (component_row issue) (components issue))
          issues return_dataframe
      else if data_part_name = ''issue_stakeholders'' then
        for_each (\<lambda>issue df.
            case customfield_10800 issue of
              None \<Rightarrow> Inr df
            | Some names \<Rightarrow> for_each (stakeholder_row issue) names df)
          issues return_dataframe
      else if data_part_name = ''issue_labels'' then
        for_each (\<lambda>issue. for_each (label_row issue) (labels issue))
          issues return_dataframe
      else if data_part_name = ''issue_worklogs'' then
        for_each (\<lambda>issue. for_each (worklog_row issue) (worklogs client issue))
          issues return_dataframe
      else if data_part_name = ''issue_comments'' then
        for_each (\<lambda>issue. for_each (comment_row issue) (comments client issue))
          issues return_dataframe
      else Inl ValueError)"

section \<open>The table registry and the stored files\<close>

text \<open>
  \<^verbatim>\<open>self.data_part_settings\<close>: data part, key column and file name of the six tables, in
  the order of the source.
\<close>

definition data_part_settings :: "(string \<times> string \<times> string) list" where
  "data_part_settings =
     [(''issues'', ''issue_key'', ''ISSUES.csv''),
      (''issue_components'', ''issue_component_key'', ''ISSUES_COMPONENTS.csv''),
      (''issue_labels'', ''issue_label_key'', ''ISSUES_LABELS.csv''),
      (''issue_stakeholders'', ''issue_stakeholder_key'', ''ISSUES_STAKEHOLDERS.csv''),
      (''issue_worklogs'', ''issue_worklog_id'', ''ISSUES_WORKLOGS.csv''),
      (''issue_comments'', ''issue_comments_id'', ''ISSUES_COMMENTS.csv'')]"

text \<open>
  \<^verbatim>\<open>get_data_part_element(data_part_name, element_name)\<close>: \<^verbatim>\<open>.loc\<close> raises a
  \<^verbatim>\<open>KeyError\<close> for a column the settings do not have, \<^verbatim>\<open>.iloc[0]\<close> an
  \<^verbatim>\<open>IndexError\<close> when no row has the data part.
\<close>

definition get_data_part_element :: "string \<Rightarrow> string \<Rightarrow> error + string" where
  "get_data_part_element data_part_name element_name =
     (if element_name \<notin> {''data_part'', ''key_name'', ''file_name''} then Inl KeyError
      else case filter (\<lambda>(part, key_name, file_name). part = data_part_name) data_part_settings of
        [] \<Rightarrow> Inl IndexError
      | (part, key_name, file_name) # _ \<Rightarrow>
          Inr (if element_name = ''data_part'' then part
               else if element_name = ''key_name'' then key_name
               else file_name))"

text \<open>
  A stored file: the frame written to it and the time of the last write, in seconds on
  the local clock (what \<^verbatim>\<open>dt.fromtimestamp(os.path.getmtime(path))\<close> reads). The text
  encoding of the CSV file is not modelled: reading a file gives the frame written.
\<close>

record csv_file =
  content :: dataframe
  mtime :: int

text \<open>
  The object and its surroundings: the attributes of \<^verbatim>\<open>self\<close> the methods use, the
  files of the data directory, the clock, and the searches sent to the Jira client so
  far. \<^verbatim>\<open>ist.convert_date_string\<close> belongs to \<^verbatim>\<open>pyIS.IS_ToolBox\<close>, which is not part
  of the sources, and is a parameter. Messages printed with \<^verbatim>\<open>ist.msg\<close> are left out.
\<close>

record state =
  project_key :: string
  data_directory_path :: string
  jira_client :: jira
  convert_date_string :: "string \<Rightarrow> string \<Rightarrow> string"
  data_part_dataframes :: "string \<rightharpoonup> dataframe option"
  self_issues :: "issue list"
  files :: "string \<rightharpoonup> csv_file"
  now :: int
  requests :: "(string \<times> nat) list"

text \<open>
  \<^verbatim>\<open>get_file_path_for_data_part\<close>: the path of the file of a data part, the empty string
  when the lookup raises. \<^verbatim>\<open>os.path.abspath\<close> leaves the path of a file directly inside
  the absolute data directory as it is.
\<close>

definition get_file_path_for_data_part :: "state \<Rightarrow> string \<Rightarrow> string" where
  "get_file_path_for_data_part st data_part_name =
     (case get_data_part_element data_part_name ''file_name'' of
        Inl e \<Rightarrow> []
      | Inr file_name \<Rightarrow> data_directory_path st @ ''/'' @ project_key st @ ''_'' @ file_name)"

text \<open>\<^verbatim>\<open>file_to_dataframe\<close>: the stored frame, \<^verbatim>\<open>None\<close> when there is no file.\<close>

definition file_to_dataframe :: "state \<Rightarrow> string \<Rightarrow> dataframe option" where
  "file_to_dataframe st file_path = map_option content (files st file_path)"

section \<open>The watermark: get_issues_file_mod_date\<close>

text \<open>
  Calendar dates: the civil date of a day number counted from 1970-01-01, and
  \<^verbatim>\<open>strftime("%Y-%m-%d")\<close> of a time in seconds, for the years with four digits.
\<close>

definition civil_from_days :: "int \<Rightarrow> int \<times> int \<times> int" where
  "civil_from_days z0 =
     (let z = z0 + 719468;
          era = z div 146097;
          doe = z - era * 146097;
          yoe = (doe - doe div 1460 + doe div 36524 - doe div 146096) div 365;
          doy = doe - (365 * yoe + yoe div 4 - yoe div 100);
          mp = (5 * doy + 2) div 153;
          d = doy - (153 * mp + 2) div 5 + 1;
          m = (if mp < 10 then mp + 3 else mp - 9);
          y = yoe + era * 400 + (if m \<le> 2 then 1 else 0)
      in (y, m, d))"

definition digit :: "int \<Rightarrow> char" where
  "digit n = char_of (48 + n mod 10)"

definition ymd :: "int \<Rightarrow> string" where
  "ymd day =
     (case civil_from_days day of (y, m, d) \<Rightarrow>
        [digit (y div 1000), digit (y div 100), digit (y div 10), digit y] @ ''-'' @
        [digit (m div 10), digit m] @ ''-'' @ [digit (d div 10), digit d])"

definition strftime_Ymd :: "int \<Rightarrow> string" where
  "strftime_Ymd t = ymd (t div 86400)"

text \<open>
  \<^verbatim>\<open>
  date_string = ''
  if os.path.isfile(file_path):
      timestamp_modified_on = os.path.getmtime(file_path)
      date_modified_on = dt.fromtimestamp(timestamp_modified_on)
      date_modified_on = date_modified_on + timedelta(days=-1)
      date_string = dt.strftime(date_modified_on,"%Y-%m-%d")
  return date_string
  \<close>
  The result is a Python value, so that the empty string and \<^verbatim>\<open>None\<close> stay apart.
\<close>

definition get_issues_file_mod_date :: "state \<Rightarrow> pyval" where
  "get_issues_file_mod_date st =
     (let file_path = get_file_path_for_data_part st ''issues'' in
      case files st file_path of
        None \<Rightarrow> PyStr []
      | Some f \<Rightarrow>
          (let date_modified_on = mtime f;
               date_modified_on = date_modified_on + (- 1) * 86400
           in PyStr (strftime_Ymd date_modified_on)))"

section \<open>The orchestrator: refresh_data_part and get_project_data\<close>

text \<open>\<^verbatim>\<open>not x\<close> is true for \<^verbatim>\<open>None\<close>, zero, the empty string and the empty list.\<close>

fun truthy :: "pyval \<Rightarrow> bool" where
  "truthy PyNone = False"
| "truthy (PyInt n) = (n \<noteq> 0)"
| "truthy (PyStr s) = (s \<noteq> [])"
| "truthy (PyList xs) = (xs \<noteq> [])"
| "truthy (PyType t) = True"

text \<open>\<^verbatim>\<open>retrieve_issues(jql, max_results)\<close>: one search, kept in \<^verbatim>\<open>self.issues\<close>.\<close>

definition retrieve_issues :: "state \<Rightarrow> string \<Rightarrow> nat \<Rightarrow> issue list \<times> state" where
  "retrieve_issues st jql max_results =
     (let found = search_issues (jira_client st) jql max_results in
      (found, st\<lparr>self_issues := found, requests := requests st @ [(jql, max_results)]\<rparr>))"

text \<open>\<^verbatim>\<open>retrieve_latest_issues(min_updated_date)\<close>; \<^verbatim>\<open>max_results\<close> has its default 0.\<close>

definition retrieve_latest_issues :: "state \<Rightarrow> string \<Rightarrow> issue list \<times> state" where
  "retrieve_latest_issues st min_updated_date =
     (let min_updated_date = convert_date_string st min_updated_date ''%F'';
          jql = ''(project = '' @ project_key st @ '') and (updatedDate >= '' @ min_updated_date
                @ '' or worklogDate >= '' @ min_updated_date @ '')''
      in retrieve_issues st jql 0)"

text \<open>
  \<^verbatim>\<open>
  file_path = self.get_file_path_for_data_part(data_part_name)
  key_name = self.get_data_part_element(data_part_name,'key_name')
  updated_df = self.data_part_to_dataframe(issues,data_part_name)
  existing_df = self.file_to_dataframe(file_path)
  final_df = self.update_dataframe(existing_df,updated_df,key_name)
  self.data_part_dataframes[data_part_name] = final_df
  final_df.to_csv(file_path,index=False)
  return final_df
  \<close>
  An exception leaves the state as the statements before it made it. When \<^verbatim>\<open>final_df\<close>
  is \<^verbatim>\<open>None\<close>, \<^verbatim>\<open>final_df.to_csv\<close> raises an \<^verbatim>\<open>AttributeError\<close>.
\<close>

definition refresh_data_part ::
  "state \<Rightarrow> string \<Rightarrow> issue list \<Rightarrow> (error + dataframe option) \<times> state" where
  "refresh_data_part st data_part_name issues =
     (let file_path = get_file_path_for_data_part st data_part_name in
      case get_data_part_element data_part_name ''key_name'' of
        Inl e \<Rightarrow> (Inl e, st)
      | Inr key_name \<Rightarrow>
      case data_part_to_dataframe (jira_client st) issues data_part_name of
        Inl e \<Rightarrow> (Inl e, st)
      | Inr updated_df \<Rightarrow>
      let existing_df = file_to_dataframe st file_path in
      case update_dataframe existing_df (Some updated_df) key_name of
        Inl e \<Rightarrow> (Inl e, st)
      | Inr final_df \<Rightarrow>
      let st = st\<lparr>data_part_dataframes := (data_part_dataframes st)(data_part_name \<mapsto> final_df)\<rparr> in
      case final_df of
        None \<Rightarrow> (Inl AttributeError, st)
      | Some df \<Rightarrow>
          (Inr final_df,
           st\<lparr>files := (files st)(file_path \<mapsto> \<lparr>content = df, mtime = now st\<rparr>)\<rparr>))"

text \<open>
  The loop of \<^verbatim>\<open>get_project_data\<close> over the data parts:
  \<^verbatim>\<open>
  for data_part in self.data_part_settings['data_part'].to_list():
      self.refresh_data_part(data_part,issues)
  \<close>
\<close>

fun refresh_data_parts :: "string list \<Rightarrow> issue list \<Rightarrow> state \<Rightarrow> (error + unit) \<times> state" where
  "refresh_data_parts [] issues st = (Inr (), st)"
| "refresh_data_parts (data_part # rest) issues st =
     (case refresh_data_part st data_part issues of
        (Inl e, st') \<Rightarrow> (Inl e, st')
      | (Inr final_df, st') \<Rightarrow> refresh_data_parts rest issues st')"

text \<open>
  \<^verbatim>\<open>get_project_data(from_date=None)\<close>. A \<^verbatim>\<open>from_date\<close> that is true but not a string
  raises a \<^verbatim>\<open>TypeError\<close> where the source concatenates it to a message.
\<close>

definition get_project_data :: "state \<Rightarrow> pyval \<Rightarrow> (error + bool) \<times> state" where
  "get_project_data st from_date =
     (if project_key st = [] then (Inl ValueError, st)
      else
        let from_date = (if is_None from_date then get_issues_file_mod_date st else from_date) in
        case (if \<not> truthy from_date
              then Inr (retrieve_issues st (''project='' @ project_key st) 0)
              else case from_date of
                     PyStr d \<Rightarrow> Inr (retrieve_latest_issues st d)
                   | _ \<Rightarrow> Inl TypeError) of
          Inl e \<Rightarrow> (Inl e, st)
        | Inr (issues, st) \<Rightarrow>
            (case refresh_data_parts (map fst data_part_settings) issues st of
               (Inl e, st) \<Rightarrow> (Inl e, st)
             | (Inr u, st) \<Rightarrow> (Inr True, st)))"

text \<open>
  A data part is processed in a state when its merged frame is kept in
  \<^verbatim>\<open>self.data_part_dataframes\<close> and its file is stored.
\<close>

definition processed :: "state \<Rightarrow> string \<Rightarrow> bool" where
  "processed st data_part_name =
     ((case data_part_dataframes st data_part_name of Some (Some df) \<Rightarrow> True | _ \<Rightarrow> False)
      \<and> files st (get_file_path_for_data_part st data_part_name) \<noteq> None)"

section \<open>Frames the normalizer is expected to build, and its scenarios\<close>

text \<open>
  The comments the client returns for a list of issues, each with its issue, in the order
  the two nested loops of the \<^verbatim>\<open>issue_comments\<close> branch visit them.
\<close>

definition issue_comments :: "jira \<Rightarrow> issue list \<Rightarrow> (issue \<times> comment) list" where
  "issue_comments client issues =
     concat (map (\<lambda>issue. map (Pair issue) (comments client issue)) issues)"

text \<open>
  The row a comment is to become: its position as key, the key of its issue, the display
  name of its author or \<^verbatim>\<open>'Unknown'\<close>, the creation time and the sanitized body.
\<close>

definition comment_row_expected :: "nat \<Rightarrow> issue \<Rightarrow> comment \<Rightarrow> row" where
  "comment_row_expected i issue comment =
     [(''issue_comments_id'', Num (int i)),
      (''issue_key'', Str (key issue)),
      (''author'', Str (case comment_author comment of None \<Rightarrow> ''Unknown'' | Some a \<Rightarrow> a)),
      (''created'', string_to_datetime (comment_created comment)),
      (''body_text'', Str (make_delimit_ready (comment_body comment)))]"

text \<open>
  An issue with two stakeholders, two components and two labels; a comment that came in
  by mail and has no author; a client that returns them.
\<close>

definition issue_PRJ_1 :: issue where
  "issue_PRJ_1 =
     \<lparr>key = ''PRJ-1'', summary = ''Login fails'', description = Some ''Steps: open the page'',
      priority = ''High'', issuetype = ''Bug'', status_name = ''Open'',
      customfield_10800 = Some [''Alice'', ''Bob''],
      created = Some ''2019-09-30T17:45:52.000+0000'', duedate = None, lastViewed = None,
      resolutiondate = None, resolution = ''None'', aggregatetimespent = Some 3600,
      assignee = ''None'', reporter = ''Carol'',
      components = [''web'', ''api''], labels = [''bug'', ''ui'']\<rparr>"

definition anonymous_comment :: comment where
  "anonymous_comment =
     \<lparr>comment_author = None, comment_created = Some ''2019-10-01T08:00:00.000+0000'',
      comment_body = Some ''sent by mail''\<rparr>"

definition client_one_comment :: jira where
  "client_one_comment =
     \<lparr>search_issues = (\<lambda>jql max_results. [issue_PRJ_1]),
      worklogs = (\<lambda>issue. []),
      comments = (\<lambda>issue. [anonymous_comment])\<rparr>"

section \<open>Frames of the merge scenarios\<close>

text \<open>
  A persisted \<^verbatim>\<open>issue_labels\<close> table with one label row for each of two issues, and
  two frames as \<^verbatim>\<open>data_part_to_dataframe\<close> builds them (its keys start again at 1 on
  every call): a new label of an issue the table knows, and the label of a third issue,
  \<^verbatim>\<open>PRJ-3\<close>, as a later search returns it.
\<close>

definition labels_existing :: dataframe where
  "labels_existing =
     \<lparr>columns = [''issue_label_key'', ''issue_key'', ''label''],
      rows = [[(''issue_label_key'', Num 1), (''issue_key'', Str ''PRJ-1''), (''label'', Str ''bug'')],
              [(''issue_label_key'', Num 2), (''issue_key'', Str ''PRJ-2''), (''label'', Str ''ui'')]]\<rparr>"

definition labels_updated :: dataframe where
  "labels_updated =
     \<lparr>columns = [''issue_label_key'', ''issue_key'', ''label''],
      rows = [[(''issue_label_key'', Num 1), (''issue_key'', Str ''PRJ-1''), (''label'', Str ''urgent'')]]\<rparr>"

definition issue_PRJ_3 :: issue where
  "issue_PRJ_3 = issue_PRJ_1\<lparr>key := ''PRJ-3'', labels := [''new'']\<rparr>"

definition labels_other_parent :: dataframe where
  "labels_other_parent =
     \<lparr>columns = [''issue_label_key'', ''issue_key'', ''label''],
      rows = [[(''issue_label_key'', Num 1), (''issue_key'', Str ''PRJ-3''), (''label'', Str ''new'')]]\<rparr>"

text \<open>
  Two \<^verbatim>\<open>issues\<close> frames in the order a search returned the issues: newest first, and
  by issue number (\<^verbatim>\<open>'PRJ-10' < 'PRJ-9'\<close> as strings).
\<close>

definition issues_descending :: dataframe where
  "issues_descending =
     \<lparr>columns = [''issue_key'', ''summary''],
      rows = [[(''issue_key'', Str ''PRJ-2''), (''summary'', Str ''second'')],
              [(''issue_key'', Str ''PRJ-1''), (''summary'', Str ''first'')]]\<rparr>"


section \<open>States of the synchronization scenarios\<close>

text \<open>
  A first synchronization of project \<^verbatim>\<open>PRJ\<close>: no file is stored yet. A second one: the
  issues file was written on 2019-09-30 at 17:45:52.
\<close>

definition first_sync :: state where
  "first_sync =
     \<lparr>project_key = ''PRJ'', data_directory_path = ''/data'', jira_client = client_one_comment,
      convert_date_string = (\<lambda>date_string format. date_string),
      data_part_dataframes = Map.empty, self_issues = [], files = Map.empty,
      now = 1569951952, requests = []\<rparr>"

definition second_sync :: state where
  "second_sync =
     first_sync\<lparr>files := [''/data/PRJ_ISSUES.csv'' \<mapsto> \<lparr>content = issues_descending, mtime = 1569865552\<rparr>]\<rparr>"

text \<open>
  First synchronizations with other clients: one whose issue has a work-log entry and a
  comment, so that every data part has rows; one whose issue has no components; one
  whose issue has no labels.
\<close>

definition logged_work :: worklog where
  "logged_work =
     \<lparr>worklog_author = Some ''Carol'', worklog_created = Some ''2019-10-01T09:00:00.000+0000'',
      worklog_started = Some ''2019-10-01T08:00:00.000+0000'', worklog_timeSpentSeconds = 3600\<rparr>"

definition client_all_parts :: jira where
  "client_all_parts =
     \<lparr>search_issues = (\<lambda>jql max_results. [issue_PRJ_1]),
      worklogs = (\<lambda>issue. [logged_work]),
      comments = (\<lambda>issue. [anonymous_comment])\<rparr>"

definition sync_all_parts :: state where
  "sync_all_parts = first_sync\<lparr>jira_client := client_all_parts\<rparr>"

definition issue_no_components :: issue where
  "issue_no_components = issue_PRJ_1\<lparr>key := ''PRJ-2'', components := []\<rparr>"

definition client_no_components :: jira where
  "client_no_components = client_all_parts\<lparr>search_issues := (\<lambda>jql max_results. [issue_no_components])\<rparr>"

definition sync_no_components :: state where
  "sync_no_components = first_sync\<lparr>jira_client := client_no_components\<rparr>"

definition issue_no_labels :: issue where
  "issue_no_labels = issue_PRJ_1\<lparr>key := ''PRJ-4'', labels := []\<rparr>"

definition client_no_labels :: jira where
  "client_no_labels = client_all_parts\<lparr>search_issues := (\<lambda>jql max_results. [issue_no_labels])\<rparr>"

definition sync_no_labels :: state where
  "sync_no_labels = first_sync\<lparr>jira_client := client_no_labels\<rparr>"

section \<open>The null test of ifnull\<close>

lemma type_py_not_None: "\<not> is_None (type_py v)"
  by (cases v) (simp_all add: is_None_def)

text \<open>
  C10: for every value and every substitute, \<^verbatim>\<open>ifnull(value, null_value)\<close> returns the
  substitute, also when the value is a non-null object: the test compares
  \<^verbatim>\<open>type(value)\<close>, a type object, with \<^verbatim>\<open>None\<close>.
\<close>

theorem ifnull_returns_null_value: "ifnull value null_value = null_value"
  by (simp add: ifnull_def type_py_not_None)

section \<open>Lists: keeping first occurrences, sorting\<close>

lemma mask_filter: "map fst (filter snd (zip xs (map P xs))) = filter P xs"
  by (induction xs) auto

lemma set_keep_first_subset: "set (keep_first f xs) \<subseteq> set xs"
  by (induction f xs rule: keep_first.induct) auto

lemma keys_keep_first: "f ` set (keep_first f xs) = f ` set xs"
  by (induction f xs rule: keep_first.induct) auto





lemma in_keep_first_unique:
  "x \<in> set xs \<Longrightarrow> \<forall>y \<in> set xs. f y = f x \<longrightarrow> y = x \<Longrightarrow> x \<in> set (keep_first f xs)"
proof (induction f xs rule: keep_first.induct)
  case (1 f)
  then show ?case by simp
next
  case (2 f y xs)
  then show ?case by (cases "x = y") auto
qed


lemma distinct_map_sort_key: "distinct (map f (sort_key f xs)) = distinct (map f xs)"
  by (simp add: distinct_map)

lemma mask_rows_isin:
  "mask_rows e (map Not (isin (map F (rows e)) (remdups ks)))
     = e\<lparr>rows := filter (\<lambda>r. F r \<notin> set ks) (rows e)\<rparr>"
proof -
  have "map Not (isin (map F (rows e)) (remdups ks)) = map (\<lambda>r. F r \<notin> set ks) (rows e)"
    by (simp add: isin_def)
  then show ?thesis
    by (simp add: mask_rows_def mask_filter)
qed

lemma merge_frames_eq:
  "merge_frames e u k =
     (let kept = filter (\<lambda>r. cell_at ''issue_key'' r \<notin> cell_at ''issue_key'' ` set (rows u)) (rows e);
          cols = columns u @ filter (\<lambda>c. c \<notin> set (columns u)) (columns e);
          dd = keep_first (cell_at k) (rows u @ kept)
      in if ''issue_key'' \<notin> set (columns u) \<or> ''issue_key'' \<notin> set (columns e) \<or> k \<notin> set cols
         then Inl KeyError
         else if \<not> sortable (map (cell_at k) dd) then Inl TypeError
         else Inr \<lparr>columns = k # removeAll k cols,
                   rows = sort_key (\<lambda>r. cell_rank (cell_at k r)) dd\<rparr>)"
  by (simp add: merge_frames_def column_def mask_rows_isin concat_df_def drop_duplicates_def
      sort_values_def set_index_reset_index_def Let_def)

lemma update_dataframe_both:
  assumes "dataframe_has_rows (Some e)" "dataframe_has_rows (Some u)"
  shows "update_dataframe (Some e) (Some u) k =
           (case merge_frames e u k of Inl err \<Rightarrow> Inl err | Inr d \<Rightarrow> Inr (Some d))"
  using assms by (simp add: update_dataframe_def)

lemma merge_frames_rows:
  assumes "merge_frames e u k = Inr d"
  shows "rows d = sort_key (\<lambda>r. cell_rank (cell_at k r))
           (keep_first (cell_at k)
             (rows u @ filter (\<lambda>r. cell_at ''issue_key'' r \<notin> cell_at ''issue_key'' ` set (rows u)) (rows e)))"
  using assms by (auto simp: merge_frames_eq Let_def split: if_splits)










lemmas eval_merge = update_dataframe_both dataframe_has_rows_def merge_frames_eq
  cell_at_def sortable_def comparable_def Let_def

section \<open>Properties of the merge\<close>

text \<open>
  C1: both frames have rows. A row of the merge result whose \<^verbatim>\<open>issue_key\<close> occurs in the
  incoming frame is a row of the incoming frame: no row of the existing frame that
  references such an issue survives, unless the incoming frame holds that very row.
\<close>

theorem update_dataframe_full_replacement:
  assumes "dataframe_has_rows (Some existing_df)" and "dataframe_has_rows (Some updated_df)"
    and "update_dataframe (Some existing_df) (Some updated_df) key_column = Inr (Some return_df)"
    and "r \<in> set (rows return_df)"
    and "cell_at ''issue_key'' r \<in> set (map (cell_at ''issue_key'') (rows updated_df))"
  shows "r \<in> set (rows updated_df)"
proof -
  let ?kept = "filter (\<lambda>r. cell_at ''issue_key'' r \<notin> cell_at ''issue_key'' ` set (rows updated_df)) (rows existing_df)"
  from assms(1-3) obtain d where d: "merge_frames existing_df updated_df key_column = Inr d"
    and "return_df = d"
    by (auto simp: update_dataframe_both split: sum.splits)
  then have "set (rows return_df) = set (keep_first (cell_at key_column) (rows updated_df @ ?kept))"
    using merge_frames_rows [OF d] by simp
  with assms(4) have "r \<in> set (rows updated_df @ ?kept)"
    using set_keep_first_subset [of "cell_at key_column" "rows updated_df @ ?kept"] by blast
  then have "r \<in> set (rows updated_df) \<or> r \<in> set ?kept" by simp
  moreover have "r \<notin> set ?kept" using assms(5) by simp
  ultimately show ?thesis by blast
qed

theorem update_dataframe_full_replacement_witness:
  "dataframe_has_rows (Some labels_existing) \<and> dataframe_has_rows (Some labels_updated)
   \<and> update_dataframe (Some labels_existing) (Some labels_updated) ''issue_label_key''
       = Inr (Some \<lparr>columns = [''issue_label_key'', ''issue_key'', ''label''],
           rows = [[(''issue_label_key'', Num 1), (''issue_key'', Str ''PRJ-1''), (''label'', Str ''urgent'')],
                   [(''issue_label_key'', Num 2), (''issue_key'', Str ''PRJ-2''), (''label'', Str ''ui'')]]\<rparr>)
   \<and> [(''issue_label_key'', Num 1), (''issue_key'', Str ''PRJ-1''), (''label'', Str ''urgent'')]
       \<in> set (rows labels_updated)"
proof -
  let ?r = "[(''issue_label_key'', Num 1), (''issue_key'', Str ''PRJ-1''), (''label'', Str ''urgent'')]"
  let ?res = "\<lparr>columns = [''issue_label_key'', ''issue_key'', ''label''],
           rows = [?r, [(''issue_label_key'', Num 2), (''issue_key'', Str ''PRJ-2''), (''label'', Str ''ui'')]]\<rparr>"
  have h1: "dataframe_has_rows (Some labels_existing)"
    by (simp add: dataframe_has_rows_def labels_existing_def)
  have h2: "dataframe_has_rows (Some labels_updated)"
    by (simp add: dataframe_has_rows_def labels_updated_def)
  have h3: "update_dataframe (Some labels_existing) (Some labels_updated) ''issue_label_key''
       = Inr (Some ?res)"
    by (simp add: eval_merge labels_existing_def labels_updated_def)
  have h4: "?r \<in> set (rows ?res)" by simp
  have h5: "cell_at ''issue_key'' ?r \<in> set (map (cell_at ''issue_key'') (rows labels_updated))"
    by (simp add: cell_at_def labels_updated_def)
  from update_dataframe_full_replacement [OF h1 h2 h3 h4 h5] h1 h2 h3 show ?thesis
    by blast
qed

section \<open>Order and uniqueness of the keys\<close>

lemma cell_le_Num: "cell_le (Num a) (Num b) = (a \<le> b)"
  by (auto simp: cell_le_def)

lemma cell_le_Str: "cell_le (Str a) (Str b) = (a \<le> b)"
  by (auto simp: cell_le_def)

lemma cell_le_NaN: "cell_le c NaN"
  by (cases c) (simp_all add: cell_le_def)






section \<open>Merging the same frame twice\<close>







section \<open>Rows written by the normalizer\<close>

lemma loc_set_last:
  "rows df = rs @ [r] \<Longrightarrow> i = length rs + 1 \<Longrightarrow> rows (loc_set i c v df) = rs @ [set_cell c v r]"
  by (simp add: loc_set_def Let_def nth_append)

lemma loc_set_all_last:
  "rows df = rs @ [r] \<Longrightarrow> i = length rs + 1
     \<Longrightarrow> rows (loc_set_all i as df) = rs @ [fold (\<lambda>(c, v). set_cell c v) as r]"
proof (induction as arbitrary: df r)
  case Nil
  then show ?case by (simp add: loc_set_all_def)
next
  case (Cons a as)
  obtain c v where a: "a = (c, v)" by (cases a)
  have "rows (loc_set i c v df) = rs @ [set_cell c v r]"
    using Cons.prems by (rule loc_set_last)
  from Cons.IH [OF this Cons.prems(2)] show ?case
    by (simp add: loc_set_all_def a)
qed

lemma loc_set_all_new:
  "i = length (rows df) + 1
     \<Longrightarrow> rows (loc_set_all i ((c, v) # as) df)
         = rows df @ [fold (\<lambda>(c, v). set_cell c v) as [(c, v)]]"
proof -
  assume i: "i = length (rows df) + 1"
  then have "rows (loc_set i c v df) = rows df @ [[(c, v)]]"
    by (simp add: loc_set_def Let_def)
  from loc_set_all_last [OF this i, of as] show ?thesis
    by (simp add: loc_set_all_def)
qed

lemma comment_row_rows:
  "\<exists>df'. comment_row issue c df = Inr df'
       \<and> rows df' = rows df @ [comment_row_expected (length (rows df) + 1) issue c]"
proof (cases "comment_author c")
  case None
  let ?i = "length (rows df) + 1"
  let ?tried = "loc_set_all ?i [(''issue_comments_id'', Num (int ?i)), (''issue_key'', Str (key issue))] df"
  have t: "rows ?tried = rows df @ [[(''issue_comments_id'', Num (int ?i)), (''issue_key'', Str (key issue))]]"
    by (simp add: loc_set_all_new set_cell_def)
  show ?thesis
    using None loc_set_all_last [OF t refl]
    by (simp add: comment_row_def comment_row_expected_def Let_def set_cell_def)
next
  case (Some a)
  then show ?thesis
    by (simp add: comment_row_def comment_row_expected_def Let_def loc_set_all_new set_cell_def)
qed

lemma for_each_comment_row:
  "\<exists>df'. for_each (comment_row issue) cs df = Inr df'
       \<and> rows df' = rows df @ map (\<lambda>(i, c). comment_row_expected i issue c)
                                 (enumerate (length (rows df) + 1) cs)"
proof (induction cs arbitrary: df)
  case Nil
  then show ?case by simp
next
  case (Cons c cs)
  obtain df1 where 1: "comment_row issue c df = Inr df1"
    and r1: "rows df1 = rows df @ [comment_row_expected (length (rows df) + 1) issue c]"
    using comment_row_rows by blast
  obtain df2 where 2: "for_each (comment_row issue) cs df1 = Inr df2"
    and r2: "rows df2 = rows df1 @ map (\<lambda>(i, c). comment_row_expected i issue c)
                                 (enumerate (length (rows df1) + 1) cs)"
    using Cons.IH by blast
  show ?case using 1 2 r1 r2 by simp
qed

lemma enumerate_map_Pair:
  "map (\<lambda>(i, c). f i x c) (enumerate n cs) = map (\<lambda>(i, y, c). f i y c) (enumerate n (map (Pair x) cs))"
  by (induction cs arbitrary: n) auto

lemma for_each_issue_comments:
  "\<exists>df'. for_each (\<lambda>issue. for_each (comment_row issue) (comments client issue)) issues df = Inr df'
       \<and> rows df' = rows df @ map (\<lambda>(i, issue, c). comment_row_expected i issue c)
                                 (enumerate (length (rows df) + 1) (issue_comments client issues))"
proof (induction issues arbitrary: df)
  case Nil
  then show ?case by (simp add: issue_comments_def)
next
  case (Cons x xs)
  obtain df1 where 1: "for_each (comment_row x) (comments client x) df = Inr df1"
    and r1: "rows df1 = rows df @ map (\<lambda>(i, c). comment_row_expected i x c)
                                 (enumerate (length (rows df) + 1) (comments client x))"
    using for_each_comment_row by blast
  obtain df2 where 2: "for_each (\<lambda>issue. for_each (comment_row issue) (comments client issue)) xs df1 = Inr df2"
    and r2: "rows df2 = rows df1 @ map (\<lambda>(i, issue, c). comment_row_expected i issue c)
                                 (enumerate (length (rows df1) + 1) (issue_comments client xs))"
    using Cons.IH by blast
  have "enumerate (length (rows df) + 1) (issue_comments client (x # xs))
      = enumerate (length (rows df) + 1) (map (Pair x) (comments client x))
        @ enumerate (length (rows df1) + 1) (issue_comments client xs)"
    by (simp add: issue_comments_def enumerate_append_eq r1 add.commute add.left_commute)
  then show ?case using 1 2 r1 r2
    by (simp add: enumerate_map_Pair [of comment_row_expected])
qed

lemma issue_comments_rows:
  "\<exists>df. data_part_to_dataframe client issues ''issue_comments'' = Inr df
       \<and> rows df = map (\<lambda>(i, issue, c). comment_row_expected i issue c)
                       (enumerate 1 (issue_comments client issues))"
  using for_each_issue_comments [of client issues empty_dataframe]
  by (simp add: data_part_to_dataframe_def empty_dataframe_def)






section \<open>The derived columns of the issues table\<close>

lemma issues_row_rows:
  "\<exists>df'. issues_row issue df = Inr df'
       \<and> cell_at ''stakeholders'' (last (rows df')) = Str []
       \<and> cell_at ''components'' (last (rows df')) = Str (str_join '','' (components issue))
       \<and> cell_at ''labels'' (last (rows df')) = Str (str_join '','' (labels issue))"
  by (simp add: issues_row_def ifnull_def type_py_not_None join_def Let_def loc_set_all_new
      set_cell_def cell_at_def)

lemma columns_loc_set:
  "columns (loc_set i c v df) = (if c \<in> set (columns df) then columns df else columns df @ [c])"
  by (simp add: loc_set_def Let_def)

lemma columns_loc_set_all:
  "columns (loc_set_all i as df)
     = fold (\<lambda>(c, v) cols. if c \<in> set cols then cols else cols @ [c]) as (columns df)"
proof (induction as arbitrary: df)
  case Nil
  then show ?case by (simp add: loc_set_all_def)
next
  case (Cons a as)
  obtain c v where a: "a = (c, v)" by (cases a)
  from Cons.IH [of "loc_set i c v df"] show ?case
    by (simp add: loc_set_all_def a columns_loc_set)
qed

lemma dataframe_eqI: "columns a = columns b \<Longrightarrow> rows a = rows b \<Longrightarrow> a = (b :: dataframe)"
  by simp

lemma make_delimit_ready_plain:
  "make_delimit_ready (Some ''Steps: open the page'') = ''Steps: open the page''"
  by code_simp

text \<open>
  C7 fails on the code for the stakeholders: \<^verbatim>\<open>ifnull\<close> hands \<^verbatim>\<open>join\<close> its substitute
  \<^verbatim>\<open>[""]\<close>, so the issue with the stakeholders Alice and Bob gets an empty
  \<^verbatim>\<open>stakeholders\<close> cell, while its components and labels are joined with commas.
\<close>

theorem issues_stakeholders_empty:
  "data_part_to_dataframe client [issue_PRJ_1] ''issues'' =
     Inr \<lparr>columns = [''issue_key'', ''summary'', ''description'', ''priority'', ''issue_type'',
                     ''status'', ''stakeholders'', ''create_date'', ''due_date'', ''last_viewed'',
                     ''resolution_date'', ''resolution'', ''total_seconds_spent'', ''assignee'',
                     ''reporter'', ''components'', ''labels''],
          rows = [[(''issue_key'', Str ''PRJ-1''),
                   (''summary'', Str ''Login fails''),
                   (''description'', Str ''Steps: open the page''),
                   (''priority'', Str ''High''),
                   (''issue_type'', Str ''Bug''),
                   (''status'', Str ''Open''),
                   (''stakeholders'', Str []),
                   (''create_date'', DateTime ''2019-09-30T17:45:52.000+0000''),
                   (''due_date'', Str []),
                   (''last_viewed'', Str []),
                   (''resolution_date'', Str []),
                   (''resolution'', Str ''None''),
                   (''total_seconds_spent'', Num 3600),
                   (''assignee'', Str ''None''),
                   (''reporter'', Str ''Carol''),
                   (''components'', Str ''web,api''),
                   (''labels'', Str ''bug,ui'')]]\<rparr>"
proof -
  let ?df = "loc_set_all 1
            [(''issue_key'', Str (key issue_PRJ_1)),
             (''summary'', Str (summary issue_PRJ_1)),
             (''description'', Str (make_delimit_ready (description issue_PRJ_1))),
             (''priority'', Str (priority issue_PRJ_1)),
             (''issue_type'', Str (issuetype issue_PRJ_1)),
             (''status'', Str (status_name issue_PRJ_1)),
             (''stakeholders'', Str []),
             (''create_date'', string_to_datetime (created issue_PRJ_1)),
             (''due_date'', string_to_datetime (duedate issue_PRJ_1)),
             (''last_viewed'', string_to_datetime (lastViewed issue_PRJ_1)),
             (''resolution_date'', string_to_datetime (resolutiondate issue_PRJ_1)),
             (''resolution'', Str (resolution issue_PRJ_1)),
             (''total_seconds_spent'', num_or_nan (aggregatetimespent issue_PRJ_1)),
             (''assignee'', Str (assignee issue_PRJ_1)),
             (''reporter'', Str (reporter issue_PRJ_1)),
             (''components'', Str (str_join '','' (components issue_PRJ_1))),
             (''labels'', Str (str_join '','' (labels issue_PRJ_1)))]
            empty_dataframe"
  have j: "join '','' (ifnull (names_py (customfield_10800 issue_PRJ_1)) (PyList [PyStr []])) = Inr []"
    by (simp add: ifnull_def type_py_not_None join_def)
  have run: "data_part_to_dataframe client [issue_PRJ_1] ''issues'' = Inr ?df"
    by (simp add: data_part_to_dataframe_def issues_row_def j empty_dataframe_def)
  have cols: "columns ?df = [''issue_key'', ''summary'', ''description'', ''priority'', ''issue_type'',
                     ''status'', ''stakeholders'', ''create_date'', ''due_date'', ''last_viewed'',
                     ''resolution_date'', ''resolution'', ''total_seconds_spent'', ''assignee'',
                     ''reporter'', ''components'', ''labels'']"
    by (simp add: columns_loc_set_all empty_dataframe_def)
  have rws: "rows ?df = [[(''issue_key'', Str ''PRJ-1''),
                   (''summary'', Str ''Login fails''),
                   (''description'', Str ''Steps: open the page''),
                   (''priority'', Str ''High''),
                   (''issue_type'', Str ''Bug''),
                   (''status'', Str ''Open''),
                   (''stakeholders'', Str []),
                   (''create_date'', DateTime ''2019-09-30T17:45:52.000+0000''),
                   (''due_date'', Str []),
                   (''last_viewed'', Str []),
                   (''resolution_date'', Str []),
                   (''resolution'', Str ''None''),
                   (''total_seconds_spent'', Num 3600),
                   (''assignee'', Str ''None''),
                   (''reporter'', Str ''Carol''),
                   (''components'', Str ''web,api''),
                   (''labels'', Str ''bug,ui'')]]"
    by (simp add: loc_set_all_new empty_dataframe_def set_cell_def issue_PRJ_1_def
        make_delimit_ready_plain string_to_datetime_def num_or_nan_def)
  show ?thesis
    unfolding run by (rule arg_cong [where f = Inr], rule dataframe_eqI) (simp_all only: cols rws dataframe.select_convs)
qed

section \<open>A key shared by the rows of two issues\<close>

lemma make_delimit_ready_new: "make_delimit_ready (Some ''new'') = ''new''"
  by code_simp

lemma labels_of_PRJ_3:
  "data_part_to_dataframe client [issue_PRJ_3] ''issue_labels'' = Inr labels_other_parent"
proof -
  let ?df = "loc_set_all 1
        [(''issue_label_key'', Num 1),
         (''issue_key'', Str ''PRJ-3''),
         (''label'', Str ''new'')]
        empty_dataframe"
  have l: "labels issue_PRJ_3 = [''new'']" and k: "key issue_PRJ_3 = ''PRJ-3''"
    by (simp_all add: issue_PRJ_3_def)
  have run: "data_part_to_dataframe client [issue_PRJ_3] ''issue_labels'' = Inr ?df"
    by (simp add: data_part_to_dataframe_def label_row_def l k empty_dataframe_def
        make_delimit_ready_new)
  have cols: "columns ?df = columns labels_other_parent"
    by (simp add: columns_loc_set_all empty_dataframe_def labels_other_parent_def)
  have rws: "rows ?df = rows labels_other_parent"
    by (simp add: loc_set_all_new empty_dataframe_def set_cell_def labels_other_parent_def)
  show ?thesis
    unfolding run by (rule arg_cong [where f = Inr], rule dataframe_eqI) (rule cols, rule rws)
qed

text \<open>
  C2 fails on the code. The stored labels are the rows \<open>(1, PRJ-1, bug)\<close> and
  \<open>(2, PRJ-2, ui)\<close>; a later search returns only \<^verbatim>\<open>PRJ-3\<close>, whose label row gets the
  key 1 again. \<^verbatim>\<open>PRJ-1\<close> does not occur in the incoming frame, so the mask keeps its row
  (the source: "Remove any records where the issue was modified"), and
  \<^verbatim>\<open>drop_duplicates\<close> then deletes it for its key: the row of the unmodified issue is
  not in the merge result.
\<close>

theorem update_dataframe_key_collision:
  "data_part_to_dataframe client [issue_PRJ_3] ''issue_labels'' = Inr labels_other_parent
   \<and> dataframe_has_rows (Some labels_existing) \<and> dataframe_has_rows (Some labels_other_parent)
   \<and> [(''issue_label_key'', Num 1), (''issue_key'', Str ''PRJ-1''), (''label'', Str ''bug'')]
       \<in> set (rows labels_existing)
   \<and> Str ''PRJ-1'' \<notin> set (map (cell_at ''issue_key'') (rows labels_other_parent))
   \<and> update_dataframe (Some labels_existing) (Some labels_other_parent) ''issue_label_key''
       = Inr (Some \<lparr>columns = [''issue_label_key'', ''issue_key'', ''label''],
           rows = [[(''issue_label_key'', Num 1), (''issue_key'', Str ''PRJ-3''), (''label'', Str ''new'')],
                   [(''issue_label_key'', Num 2), (''issue_key'', Str ''PRJ-2''), (''label'', Str ''ui'')]]\<rparr>)"
proof -
  have "dataframe_has_rows (Some labels_existing) \<and> dataframe_has_rows (Some labels_other_parent)
   \<and> [(''issue_label_key'', Num 1), (''issue_key'', Str ''PRJ-1''), (''label'', Str ''bug'')]
       \<in> set (rows labels_existing)
   \<and> Str ''PRJ-1'' \<notin> set (map (cell_at ''issue_key'') (rows labels_other_parent))
   \<and> update_dataframe (Some labels_existing) (Some labels_other_parent) ''issue_label_key''
       = Inr (Some \<lparr>columns = [''issue_label_key'', ''issue_key'', ''label''],
           rows = [[(''issue_label_key'', Num 1), (''issue_key'', Str ''PRJ-3''), (''label'', Str ''new'')],
                   [(''issue_label_key'', Num 2), (''issue_key'', Str ''PRJ-2''), (''label'', Str ''ui'')]]\<rparr>)"
    by (simp add: eval_merge labels_existing_def labels_other_parent_def)
  with labels_of_PRJ_3 [of client] show ?thesis by blast
qed

section \<open>The watermark and the search it selects\<close>

lemma requests_refresh_data_part: "requests (snd (refresh_data_part st p issues)) = requests st"
  by (simp add: refresh_data_part_def Let_def split: sum.splits option.splits)

lemma requests_refresh_data_parts: "requests (snd (refresh_data_parts ps issues st)) = requests st"
proof (induction ps arbitrary: st)
  case Nil
  then show ?case by simp
next
  case (Cons p ps)
  show ?case
  proof (cases "refresh_data_part st p issues")
    case (Pair r st')
    with requests_refresh_data_part [of st p issues] have "requests st' = requests st" by simp
    with Pair Cons.IH [of st'] show ?thesis by (cases r) simp_all
  qed
qed

lemma ymd_not_empty: "ymd day \<noteq> []"
  by (simp add: ymd_def split: prod.splits)

lemma issues_path: "get_file_path_for_data_part st ''issues''
    = data_directory_path st @ ''/'' @ project_key st @ ''_ISSUES.csv''"
  by (simp add: get_file_path_for_data_part_def get_data_part_element_def data_part_settings_def)

lemma requests_after_retrieval:
  "requests (snd (case refresh_data_parts ps (fst (retrieve_issues st jql n)) (snd (retrieve_issues st jql n)) of
                    (Inl e, s) \<Rightarrow> (Inl e, s) | (Inr u, s) \<Rightarrow> (Inr True, s)))
     = requests st @ [(jql, n)]"
proof -
  obtain found st1 where q: "retrieve_issues st jql n = (found, st1)"
    by (cases "retrieve_issues st jql n")
  then have r1: "requests st1 = requests st @ [(jql, n)]"
    by (auto simp: retrieve_issues_def Let_def)
  obtain r st' where l: "refresh_data_parts ps found st1 = (r, st')"
    by (cases "refresh_data_parts ps found st1")
  have "requests st' = requests st1"
    using requests_refresh_data_parts [of ps found st1] l by simp
  then show ?thesis using q l r1 by (cases r) simp_all
qed

lemma requests_get_project_data_full:
  assumes "project_key st \<noteq> []" "get_issues_file_mod_date st = PyStr []"
  shows "requests (snd (get_project_data st PyNone))
           = requests st @ [(''project='' @ project_key st, 0)]"
  using assms requests_after_retrieval [of "map fst data_part_settings" st "''project='' @ project_key st" 0]
  by (simp add: get_project_data_def is_None_def split_beta)

lemma requests_get_project_data_incremental:
  assumes "project_key st \<noteq> []" "get_issues_file_mod_date st = PyStr d" "d \<noteq> []"
  shows "requests (snd (get_project_data st PyNone))
           = requests st @
             [(''(project = '' @ project_key st @ '') and (updatedDate >= ''
                 @ convert_date_string st d ''%F'' @ '' or worklogDate >= ''
                 @ convert_date_string st d ''%F'' @ '')'', 0)]"
  using assms requests_after_retrieval [of "map fst data_part_settings" st
      "''(project = '' @ project_key st @ '') and (updatedDate >= ''
                 @ convert_date_string st d ''%F'' @ '' or worklogDate >= ''
                 @ convert_date_string st d ''%F'' @ '')''" 0]
  by (simp add: get_project_data_def is_None_def split_beta retrieve_latest_issues_def Let_def)

lemma day_before: "(t - 86400) div 86400 = t div 86400 - (1::int)"
proof -
  have "t - 86400 = t + 86400 * (- 1)" by simp
  then have "(t - 86400) div 86400 = (t + 86400 * (- 1)) div 86400" by simp
  also have "\<dots> = - 1 + t div 86400" by (rule div_mult_self2) simp
  finally show ?thesis by simp
qed

lemma ymd_example: "ymd 18168 = ''2019-09-29''"
  by code_simp

text \<open>
  C6 as stated fails on the value for a missing file: \<^verbatim>\<open>get_issues_file_mod_date\<close>
  returns the empty string, as its docstring says, not \<^verbatim>\<open>None\<close>.
\<close>

theorem get_issues_file_mod_date_none_counterexample:
  "files first_sync (get_file_path_for_data_part first_sync ''issues'') = None
   \<and> get_issues_file_mod_date first_sync = PyStr []
   \<and> get_issues_file_mod_date first_sync \<noteq> PyNone"
  by (simp add: get_issues_file_mod_date_def first_sync_def)

text \<open>
  C6, amended: with no stored issues file \<^verbatim>\<open>get_issues_file_mod_date\<close> returns the empty
  string and \<^verbatim>\<open>get_project_data\<close> searches for every issue of the project; with a file
  it returns the date of the day before the day of the last write, and
  \<^verbatim>\<open>get_project_data\<close> searches for the issues updated or worked on since that date.
\<close>

theorem get_issues_file_mod_date_watermark:
  assumes "project_key st \<noteq> []"
  shows "case files st (get_file_path_for_data_part st ''issues'') of
           None \<Rightarrow>
             get_issues_file_mod_date st = PyStr []
             \<and> requests (snd (get_project_data st PyNone))
                 = requests st @ [(''project='' @ project_key st, 0)]
         | Some f \<Rightarrow>
             get_issues_file_mod_date st = PyStr (ymd (mtime f div 86400 - 1))
             \<and> requests (snd (get_project_data st PyNone))
                 = requests st @
                   [(''(project = '' @ project_key st @ '') and (updatedDate >= ''
                       @ convert_date_string st (ymd (mtime f div 86400 - 1)) ''%F''
                       @ '' or worklogDate >= ''
                       @ convert_date_string st (ymd (mtime f div 86400 - 1)) ''%F'' @ '')'', 0)]"
proof (cases "files st (get_file_path_for_data_part st ''issues'')")
  case None
  then have "get_issues_file_mod_date st = PyStr []"
    by (simp add: get_issues_file_mod_date_def)
  with None requests_get_project_data_full [OF assms this] show ?thesis by simp
next
  case (Some f)
  then have d: "get_issues_file_mod_date st = PyStr (ymd (mtime f div 86400 - 1))"
    by (simp add: get_issues_file_mod_date_def strftime_Ymd_def Let_def day_before)
  from Some d requests_get_project_data_incremental [OF assms d ymd_not_empty] show ?thesis
    by simp
qed

theorem get_issues_file_mod_date_watermark_witness:
  "project_key second_sync \<noteq> []
   \<and> files second_sync (get_file_path_for_data_part second_sync ''issues'')
       = Some \<lparr>content = issues_descending, mtime = 1569865552\<rparr>
   \<and> get_issues_file_mod_date second_sync = PyStr ''2019-09-29''
   \<and> requests (snd (get_project_data second_sync PyNone))
       = [(''(project = PRJ) and (updatedDate >= 2019-09-29 or worklogDate >= 2019-09-29)'', 0)]"
proof -
  have h: "project_key second_sync \<noteq> []"
    by (simp add: second_sync_def first_sync_def)
  have f: "files second_sync (get_file_path_for_data_part second_sync ''issues'')
       = Some \<lparr>content = issues_descending, mtime = 1569865552\<rparr>"
    by (simp add: issues_path second_sync_def first_sync_def)
  have c: "convert_date_string second_sync = (\<lambda>date_string format. date_string)"
    and p: "project_key second_sync = ''PRJ''" and r: "requests second_sync = []"
    by (simp_all add: second_sync_def first_sync_def)
  from get_issues_file_mod_date_watermark [OF h] show ?thesis
    unfolding f by (simp add: h ymd_example c p r)
qed

section \<open>Frames of a first synchronization\<close>

lemma for_each_length:
  assumes "\<And>x s. \<exists>s'. body x s = Inr s' \<and> length (rows s') = length (rows s) + n x"
  shows "\<exists>s'. for_each body xs s = Inr s' \<and> length (rows s') = length (rows s) + sum_list (map n xs)"
proof (induction xs arbitrary: s)
  case Nil
  then show ?case by simp
next
  case (Cons x xs)
  obtain s1 where 1: "body x s = Inr s1" "length (rows s1) = length (rows s) + n x"
    using assms by blast
  obtain s2 where 2: "for_each body xs s1 = Inr s2"
    "length (rows s2) = length (rows s1) + sum_list (map n xs)"
    using Cons.IH by blast
  show ?case using 1 2 by simp
qed

lemma length_loc_set_all_new:
  "length (rows (loc_set_all (length (rows df) + 1) ((c, v) # as) df)) = length (rows df) + 1"
  by (simp add: loc_set_all_new)

lemma issues_row_length:
  "\<exists>df'. issues_row issue df = Inr df' \<and> length (rows df') = length (rows df) + 1"
  by (simp add: issues_row_def ifnull_def type_py_not_None join_def Let_def
      length_loc_set_all_new del: One_nat_def)

lemma component_row_length:
  "\<exists>df'. component_row issue x df = Inr df' \<and> length (rows df') = length (rows df) + 1"
  by (simp add: component_row_def Let_def length_loc_set_all_new del: One_nat_def)

lemma label_row_length:
  "\<exists>df'. label_row issue x df = Inr df' \<and> length (rows df') = length (rows df) + 1"
  by (simp add: label_row_def Let_def length_loc_set_all_new del: One_nat_def)

lemma stakeholder_row_length:
  "\<exists>df'. stakeholder_row issue x df = Inr df' \<and> length (rows df') = length (rows df) + 1"
  by (simp add: stakeholder_row_def Let_def length_loc_set_all_new del: One_nat_def)

lemma worklog_row_length:
  "worklog_author w \<noteq> None \<Longrightarrow>
     \<exists>df'. worklog_row issue w df = Inr df' \<and> length (rows df') = length (rows df) + 1"
  by (auto simp: worklog_row_def Let_def length_loc_set_all_new simp del: One_nat_def)

lemma issues_frame_length:
  "\<exists>u. data_part_to_dataframe c issues ''issues'' = Inr u \<and> length (rows u) = length issues"
  using for_each_length [of issues_row "\<lambda>x. 1" issues empty_dataframe, OF issues_row_length]
  by (simp add: data_part_to_dataframe_def empty_dataframe_def sum_list_triv)

lemma components_frame_length:
  "\<exists>u. data_part_to_dataframe c issues ''issue_components'' = Inr u
       \<and> length (rows u) = sum_list (map (\<lambda>issue. length (components issue)) issues)"
proof -
  have inner: "\<exists>s'. for_each (component_row issue) (components issue) s = Inr s'
                  \<and> length (rows s') = length (rows s) + length (components issue)" for issue s
    using for_each_length [of "component_row issue" "\<lambda>x. 1" "components issue" s,
        OF component_row_length]
    by (simp add: sum_list_triv)
  from for_each_length [of "\<lambda>issue. for_each (component_row issue) (components issue)"
      "\<lambda>issue. length (components issue)" issues empty_dataframe, OF inner]
  show ?thesis
    by (simp add: data_part_to_dataframe_def empty_dataframe_def)
qed

lemma labels_frame_length:
  "\<exists>u. data_part_to_dataframe c issues ''issue_labels'' = Inr u
       \<and> length (rows u) = sum_list (map (\<lambda>issue. length (labels issue)) issues)"
proof -
  have inner: "\<exists>s'. for_each (label_row issue) (labels issue) s = Inr s'
                  \<and> length (rows s') = length (rows s) + length (labels issue)" for issue s
    using for_each_length [of "label_row issue" "\<lambda>x. 1" "labels issue" s, OF label_row_length]
    by (simp add: sum_list_triv)
  from for_each_length [of "\<lambda>issue. for_each (label_row issue) (labels issue)"
      "\<lambda>issue. length (labels issue)" issues empty_dataframe, OF inner]
  show ?thesis
    by (simp add: data_part_to_dataframe_def empty_dataframe_def)
qed

lemma stakeholders_frame_length:
  "\<exists>u. data_part_to_dataframe c issues ''issue_stakeholders'' = Inr u
       \<and> length (rows u) = sum_list (map (\<lambda>issue. case customfield_10800 issue of
                                   None \<Rightarrow> 0 | Some names \<Rightarrow> length names) issues)"
proof -
  let ?n = "\<lambda>issue. case customfield_10800 issue of None \<Rightarrow> 0 | Some names \<Rightarrow> length names"
  have inner: "\<exists>s'. (case customfield_10800 issue of None \<Rightarrow> Inr s
                     | Some names \<Rightarrow> for_each (stakeholder_row issue) names s) = Inr s'
                  \<and> length (rows s') = length (rows s) + ?n issue" for issue s
  proof (cases "customfield_10800 issue")
    case None
    then show ?thesis by simp
  next
    case (Some names)
    with for_each_length [of "stakeholder_row issue" "\<lambda>x. 1" names s, OF stakeholder_row_length]
    show ?thesis by (simp add: sum_list_triv)
  qed
  from for_each_length [of "\<lambda>issue df. case customfield_10800 issue of None \<Rightarrow> Inr df
                     | Some names \<Rightarrow> for_each (stakeholder_row issue) names df"
      ?n issues empty_dataframe, OF inner]
  show ?thesis
    by (simp add: data_part_to_dataframe_def empty_dataframe_def)
qed

lemma comments_frame_length:
  "\<exists>u. data_part_to_dataframe c issues ''issue_comments'' = Inr u
       \<and> length (rows u) = length (issue_comments c issues)"
  using issue_comments_rows [of c issues] by auto

lemma for_each_length_set:
  assumes "\<And>x s. x \<in> set xs \<Longrightarrow> \<exists>s'. body x s = Inr s' \<and> length (rows s') = length (rows s) + n x"
  shows "\<exists>s'. for_each body xs s = Inr s' \<and> length (rows s') = length (rows s) + sum_list (map n xs)"
  using assms
proof (induction xs arbitrary: s)
  case Nil
  then show ?case by simp
next
  case (Cons x xs)
  obtain s1 where 1: "body x s = Inr s1" "length (rows s1) = length (rows s) + n x"
    using Cons.prems [of x s] by auto
  obtain s2 where 2: "for_each body xs s1 = Inr s2"
    "length (rows s2) = length (rows s1) + sum_list (map n xs)"
    using Cons.IH [of s1] Cons.prems by auto
  show ?case using 1 2 by simp
qed

lemma worklogs_frame_length:
  assumes "\<And>issue w. issue \<in> set issues \<Longrightarrow> w \<in> set (worklogs c issue) \<Longrightarrow> worklog_author w \<noteq> None"
  shows "\<exists>u. data_part_to_dataframe c issues ''issue_worklogs'' = Inr u
       \<and> length (rows u) = sum_list (map (\<lambda>issue. length (worklogs c issue)) issues)"
proof -
  have inner: "\<exists>s'. for_each (worklog_row issue) (worklogs c issue) s = Inr s'
                  \<and> length (rows s') = length (rows s) + length (worklogs c issue)"
    if "issue \<in> set issues" for issue s
    using for_each_length_set [of "worklogs c issue" "worklog_row issue" "\<lambda>x. 1" s]
      worklog_row_length assms [OF that]
    by (simp add: sum_list_triv)
  from for_each_length_set [of issues "\<lambda>issue. for_each (worklog_row issue) (worklogs c issue)"
      "\<lambda>issue. length (worklogs c issue)" empty_dataframe, OF inner]
  show ?thesis
    by (simp add: data_part_to_dataframe_def empty_dataframe_def)
qed

section \<open>One refresh, and the loop over the data parts\<close>

lemma refresh_data_part_cases:
  obtains (raised) e where "refresh_data_part st p issues = (Inl e, st)"
  | (no_data) "refresh_data_part st p issues =
        (Inl AttributeError, st\<lparr>data_part_dataframes := (data_part_dataframes st)(p \<mapsto> None)\<rparr>)"
  | (stored) df where "refresh_data_part st p issues =
        (Inr (Some df),
         st\<lparr>data_part_dataframes := (data_part_dataframes st)(p \<mapsto> Some df),
            files := (files st)(get_file_path_for_data_part st p
                        \<mapsto> \<lparr>content = df, mtime = now st\<rparr>)\<rparr>)"
proof (cases "get_data_part_element p ''key_name''")
  case (Inl e)
  then show ?thesis using raised [of e] by (simp add: refresh_data_part_def Let_def)
next
  case k: (Inr key_name)
  show ?thesis
  proof (cases "data_part_to_dataframe (jira_client st) issues p")
    case (Inl e)
    then show ?thesis using k raised [of e] by (simp add: refresh_data_part_def Let_def)
  next
    case u: (Inr updated_df)
    show ?thesis
    proof (cases "update_dataframe (file_to_dataframe st (get_file_path_for_data_part st p))
                    (Some updated_df) key_name")
      case (Inl e)
      then show ?thesis using k u raised [of e] by (simp add: refresh_data_part_def Let_def)
    next
      case f: (Inr final_df)
      show ?thesis
      proof (cases final_df)
        case None
        then show ?thesis using k u f no_data by (simp add: refresh_data_part_def Let_def)
      next
        case (Some df)
        then show ?thesis using k u f stored [of df] by (simp add: refresh_data_part_def Let_def)
      qed
    qed
  qed
qed

lemma path_cong:
  "project_key st' = project_key st \<Longrightarrow> data_directory_path st' = data_directory_path st
     \<Longrightarrow> get_file_path_for_data_part st' p = get_file_path_for_data_part st p"
  by (simp add: get_file_path_for_data_part_def split: sum.splits)

lemma refresh_data_part_keeps:
  assumes "refresh_data_part st p issues = (r, st')"
  shows "project_key st' = project_key st \<and> data_directory_path st' = data_directory_path st
       \<and> jira_client st' = jira_client st \<and> now st' = now st
       \<and> (\<forall>q. q \<noteq> p \<longrightarrow> data_part_dataframes st' q = data_part_dataframes st q)
       \<and> (\<forall>x. x \<noteq> get_file_path_for_data_part st p \<longrightarrow> files st' x = files st x)"
  using assms by (cases rule: refresh_data_part_cases [of st p issues]) auto

lemma processed_refresh_data_part:
  assumes "refresh_data_part st p issues = (Inr r, st')"
  shows "processed st' p \<and> (processed st q \<longrightarrow> processed st' q)"
proof (cases rule: refresh_data_part_cases [of st p issues])
  case (raised e)
  with assms show ?thesis by simp
next
  case no_data
  with assms show ?thesis by simp
next
  case (stored df)
  with assms have st': "st' = st\<lparr>data_part_dataframes := (data_part_dataframes st)(p \<mapsto> Some df),
            files := (files st)(get_file_path_for_data_part st p
                        \<mapsto> \<lparr>content = df, mtime = now st\<rparr>)\<rparr>"
    by auto
  have path: "get_file_path_for_data_part st' q = get_file_path_for_data_part st q" for q
    by (rule path_cong) (simp_all add: st')
  have "processed st' p"
    by (simp add: processed_def path) (simp add: st')
  moreover have "processed st' q" if "processed st q"
    using that by (simp add: processed_def path) (auto simp: st' split: option.splits)
  ultimately show ?thesis by blast
qed

lemma refresh_data_parts_processed:
  assumes "refresh_data_parts ps issues st = (Inr u, st')"
  shows "(\<forall>p \<in> set ps. processed st' p) \<and> (\<forall>q. processed st q \<longrightarrow> processed st' q)"
  using assms
proof (induction ps arbitrary: st)
  case Nil
  then show ?case by simp
next
  case (Cons p ps)
  obtain r st1 where 1: "refresh_data_part st p issues = (r, st1)"
    by (cases "refresh_data_part st p issues")
  with Cons.prems obtain final_df where r: "r = Inr final_df"
    and 2: "refresh_data_parts ps issues st1 = (Inr u, st')"
    by (cases r) simp_all
  have step: "processed st1 p" "\<And>q. processed st q \<Longrightarrow> processed st1 q"
    using processed_refresh_data_part [OF 1 [unfolded r]] by blast+
  from Cons.IH [OF 2] step show ?case by auto
qed

lemma refresh_data_parts_abort:
  assumes "refresh_data_parts pre issues st = (Inr u, st1)"
    and "refresh_data_part st1 p issues = (Inl e, st2)"
  shows "refresh_data_parts (pre @ p # post) issues st = (Inl e, st2)"
  using assms
proof (induction pre arbitrary: st)
  case Nil
  then show ?case by simp
next
  case (Cons a pre)
  obtain r sa where 1: "refresh_data_part st a issues = (r, sa)"
    by (cases "refresh_data_part st a issues")
  with Cons.prems(1) obtain final_df where r: "r = Inr final_df"
    and 2: "refresh_data_parts pre issues sa = (Inr u, st1)"
    by (cases r) simp_all
  from Cons.IH [OF 2 Cons.prems(2)] 1 r show ?case by simp
qed

lemma refresh_data_part_first_write:
  assumes "get_data_part_element p ''key_name'' = Inr k"
    and "data_part_to_dataframe (jira_client st) issues p = Inr u"
    and "files st (get_file_path_for_data_part st p) = None"
  shows "refresh_data_part st p issues =
     (if rows u = []
      then (Inl AttributeError, st\<lparr>data_part_dataframes := (data_part_dataframes st)(p \<mapsto> None)\<rparr>)
      else (Inr (Some u),
            st\<lparr>data_part_dataframes := (data_part_dataframes st)(p \<mapsto> Some u),
               files := (files st)(get_file_path_for_data_part st p
                           \<mapsto> \<lparr>content = u, mtime = now st\<rparr>)\<rparr>))"
  using assms
  by (simp add: refresh_data_part_def Let_def file_to_dataframe_def update_dataframe_def
      dataframe_has_rows_def)

lemma refresh_data_parts_keeps:
  assumes "refresh_data_parts ps issues st = (r, st')"
  shows "project_key st' = project_key st \<and> data_directory_path st' = data_directory_path st
       \<and> jira_client st' = jira_client st
       \<and> (\<forall>q. q \<notin> set ps \<longrightarrow> data_part_dataframes st' q = data_part_dataframes st q)"
  using assms
proof (induction ps arbitrary: st)
  case Nil
  then show ?case by simp
next
  case (Cons p ps)
  obtain r1 st1 where 1: "refresh_data_part st p issues = (r1, st1)"
    by (cases "refresh_data_part st p issues")
  note k = refresh_data_part_keeps [OF 1]
  show ?case
  proof (cases r1)
    case (Inl e)
    with 1 Cons.prems have "st' = st1" by simp
    with k show ?thesis by simp
  next
    case (Inr final_df)
    with 1 Cons.prems have "refresh_data_parts ps issues st1 = (r, st')" by simp
    from Cons.IH [OF this] k show ?thesis by simp
  qed
qed

lemma refresh_data_parts_first_sync:
  assumes "\<And>p. p \<in> set ps \<Longrightarrow> \<exists>k. get_data_part_element p ''key_name'' = Inr k"
    and "\<And>p. p \<in> set ps \<Longrightarrow>
           \<exists>u. data_part_to_dataframe (jira_client st) issues p = Inr u \<and> rows u \<noteq> []"
    and "\<And>p. p \<in> set ps \<Longrightarrow> files st (get_file_path_for_data_part st p) = None"
    and "distinct (map (get_file_path_for_data_part st) ps)"
  shows "\<exists>st'. refresh_data_parts ps issues st = (Inr (), st')"
  using assms
proof (induction ps arbitrary: st)
  case Nil
  then show ?case by simp
next
  case (Cons p ps)
  obtain k where k: "get_data_part_element p ''key_name'' = Inr k"
    using Cons.prems(1) [of p] by auto
  obtain u where u: "data_part_to_dataframe (jira_client st) issues p = Inr u" "rows u \<noteq> []"
    using Cons.prems(2) [of p] by auto
  have f: "files st (get_file_path_for_data_part st p) = None"
    using Cons.prems(3) [of p] by simp
  define st1 where "st1 = st\<lparr>data_part_dataframes := (data_part_dataframes st)(p \<mapsto> Some u),
               files := (files st)(get_file_path_for_data_part st p
                           \<mapsto> \<lparr>content = u, mtime = now st\<rparr>)\<rparr>"
  have 1: "refresh_data_part st p issues = (Inr (Some u), st1)"
    using refresh_data_part_first_write [OF k u(1) f] u(2) by (simp add: st1_def)
  have path: "get_file_path_for_data_part st1 q = get_file_path_for_data_part st q" for q
    by (rule path_cong) (simp_all add: st1_def)
  have "\<exists>st'. refresh_data_parts ps issues st1 = (Inr (), st')"
  proof (rule Cons.IH)
    fix q assume q: "q \<in> set ps"
    then show "\<exists>k. get_data_part_element q ''key_name'' = Inr k"
      using Cons.prems(1) by simp
    show "\<exists>u. data_part_to_dataframe (jira_client st1) issues q = Inr u \<and> rows u \<noteq> []"
      using Cons.prems(2) [of q] q by (simp add: st1_def)
    have "get_file_path_for_data_part st q \<noteq> get_file_path_for_data_part st p"
      using Cons.prems(4) q by (auto simp: image_iff)
    then show "files st1 (get_file_path_for_data_part st1 q) = None"
      using Cons.prems(3) [of q] q by (simp add: path) (simp add: st1_def)
  next
    have "get_file_path_for_data_part st1 = get_file_path_for_data_part st"
      by (rule ext) (rule path)
    then show "distinct (map (get_file_path_for_data_part st1) ps)"
      using Cons.prems(4) by simp
  qed
  then show ?case using 1 by simp
qed

lemma registry: "map fst data_part_settings =
    [''issues'', ''issue_components'', ''issue_labels'', ''issue_stakeholders'',
     ''issue_worklogs'', ''issue_comments'']"
  by (simp add: data_part_settings_def)

lemma registry_key_names:
  "p \<in> set (map fst data_part_settings) \<Longrightarrow> \<exists>k. get_data_part_element p ''key_name'' = Inr k"
  by (auto simp: get_data_part_element_def data_part_settings_def)

lemma registry_paths_distinct:
  "distinct (map (get_file_path_for_data_part st) (map fst data_part_settings))"
  by (simp add: get_file_path_for_data_part_def get_data_part_element_def data_part_settings_def)

lemma get_project_data_first_sync_loop:
  assumes "project_key st \<noteq> []" "files st = Map.empty"
  shows "get_project_data st PyNone =
     (case refresh_data_parts (map fst data_part_settings)
              (search_issues (jira_client st) (''project='' @ project_key st) 0)
              (st\<lparr>self_issues := search_issues (jira_client st) (''project='' @ project_key st) 0,
                  requests := requests st @ [(''project='' @ project_key st, 0)]\<rparr>) of
        (Inl e, s) \<Rightarrow> (Inl e, s)
      | (Inr u, s) \<Rightarrow> (Inr True, s))"
  using assms
  by (simp add: get_project_data_def is_None_def get_issues_file_mod_date_def
      retrieve_issues_def Let_def)

lemma refresh_data_parts_files:
  assumes "refresh_data_parts ps issues st = (r, st')"
    and "x \<notin> get_file_path_for_data_part st ` set ps"
  shows "files st' x = files st x"
  using assms
proof (induction ps arbitrary: st)
  case Nil
  then show ?case by simp
next
  case (Cons p ps)
  obtain r1 st1 where 1: "refresh_data_part st p issues = (r1, st1)"
    by (cases "refresh_data_part st p issues")
  note k = refresh_data_part_keeps [OF 1]
  have x: "files st1 x = files st x" using k Cons.prems(2) by simp
  have "get_file_path_for_data_part st1 = get_file_path_for_data_part st"
    by (rule ext, rule path_cong) (simp_all add: k)
  then have x1: "x \<notin> get_file_path_for_data_part st1 ` set ps" using Cons.prems(2) by simp
  show ?case
  proof (cases r1)
    case (Inl e)
    with 1 Cons.prems(1) have "st' = st1" by simp
    with x show ?thesis by simp
  next
    case (Inr final_df)
    with 1 Cons.prems(1) have "refresh_data_parts ps issues st1 = (r, st')" by simp
    from Cons.IH [OF this x1] x show ?thesis by simp
  qed
qed

lemma first_sync_prefix:
  assumes "map fst data_part_settings = pre @ p # post"
    and "files st = Map.empty"
    and "\<And>q. q \<in> set pre \<Longrightarrow>
           \<exists>u. data_part_to_dataframe (jira_client st) issues q = Inr u \<and> rows u \<noteq> []"
  obtains st1 where "refresh_data_parts pre issues st = (Inr (), st1)"
    and "jira_client st1 = jira_client st"
    and "\<And>q. q \<notin> set pre \<Longrightarrow> data_part_dataframes st1 q = data_part_dataframes st q"
    and "files st1 (get_file_path_for_data_part st1 p) = None"
proof -
  have d: "distinct (map (get_file_path_for_data_part st) (pre @ p # post))"
    using registry_paths_distinct [of st] assms(1) by simp
  have "\<exists>st1. refresh_data_parts pre issues st = (Inr (), st1)"
  proof (rule refresh_data_parts_first_sync)
    fix q assume q: "q \<in> set pre"
    then have "q \<in> set (map fst data_part_settings)" unfolding assms(1) by simp
    then show "\<exists>k. get_data_part_element q ''key_name'' = Inr k" by (rule registry_key_names)
    show "\<exists>u. data_part_to_dataframe (jira_client st) issues q = Inr u \<and> rows u \<noteq> []"
      using q by (rule assms(3))
    show "files st (get_file_path_for_data_part st q) = None" by (simp add: assms(2))
  next
    show "distinct (map (get_file_path_for_data_part st) pre)" using d by simp
  qed
  then obtain st1 where 1: "refresh_data_parts pre issues st = (Inr (), st1)" by blast
  note k = refresh_data_parts_keeps [OF 1]
  have path: "get_file_path_for_data_part st1 p = get_file_path_for_data_part st p"
    by (rule path_cong) (simp_all add: k)
  have "get_file_path_for_data_part st p \<notin> get_file_path_for_data_part st ` set pre"
    using d by auto
  from refresh_data_parts_files [OF 1 this]
  have "files st1 (get_file_path_for_data_part st1 p) = None"
    by (simp add: path assms(2))
  with 1 k that show thesis by blast
qed

section \<open>The synchronization scenarios\<close>

lemma four_parts_frames:
  assumes "p \<in> set [''issues'', ''issue_components'', ''issue_labels'', ''issue_stakeholders'']"
  shows "\<exists>u. data_part_to_dataframe c [issue_PRJ_1] p = Inr u \<and> rows u \<noteq> []"
proof -
  consider "p = ''issues''" | "p = ''issue_components''" | "p = ''issue_labels''"
    | "p = ''issue_stakeholders''"
    using assms by (simp only: set_simps insert_iff empty_iff) blast
  then show ?thesis
  proof cases
    case 1
    obtain u where "data_part_to_dataframe c [issue_PRJ_1] ''issues'' = Inr u"
      "length (rows u) = length [issue_PRJ_1]"
      using issues_frame_length by blast
    with 1 show ?thesis by auto
  next
    case 2
    obtain u where "data_part_to_dataframe c [issue_PRJ_1] ''issue_components'' = Inr u"
      "length (rows u) = sum_list (map (\<lambda>issue. length (components issue)) [issue_PRJ_1])"
      using components_frame_length by blast
    with 2 show ?thesis by (auto simp: issue_PRJ_1_def)
  next
    case 3
    obtain u where "data_part_to_dataframe c [issue_PRJ_1] ''issue_labels'' = Inr u"
      "length (rows u) = sum_list (map (\<lambda>issue. length (labels issue)) [issue_PRJ_1])"
      using labels_frame_length by blast
    with 3 show ?thesis by (auto simp: issue_PRJ_1_def)
  next
    case 4
    obtain u where "data_part_to_dataframe c [issue_PRJ_1] ''issue_stakeholders'' = Inr u"
      "length (rows u) = sum_list (map (\<lambda>issue. case customfield_10800 issue of
                                   None \<Rightarrow> 0 | Some names \<Rightarrow> length names) [issue_PRJ_1])"
      using stakeholders_frame_length by blast
    with 4 show ?thesis by (auto simp: issue_PRJ_1_def)
  qed
qed

lemma all_parts_worklogs:
  "\<exists>u. data_part_to_dataframe client_all_parts [issue_PRJ_1] ''issue_worklogs'' = Inr u \<and> rows u \<noteq> []"
proof -
  have a: "worklog_author w \<noteq> None" if "w \<in> set (worklogs client_all_parts issue)" for issue w
    using that by (simp add: client_all_parts_def logged_work_def)
  obtain u where u: "data_part_to_dataframe client_all_parts [issue_PRJ_1] ''issue_worklogs'' = Inr u"
    and l: "length (rows u) = sum_list (map (\<lambda>issue. length (worklogs client_all_parts issue)) [issue_PRJ_1])"
    using worklogs_frame_length [of "[issue_PRJ_1]" client_all_parts] a by blast
  have "length (rows u) = 1" unfolding l by (simp add: client_all_parts_def)
  then have "rows u \<noteq> []" by auto
  with u show ?thesis by blast
qed

lemma one_comment_frame:
  assumes "comments c = (\<lambda>issue. [anonymous_comment])"
  shows "\<exists>u. data_part_to_dataframe c [issue_PRJ_1] ''issue_comments'' = Inr u \<and> rows u \<noteq> []"
proof -
  obtain u where u: "data_part_to_dataframe c [issue_PRJ_1] ''issue_comments'' = Inr u"
    and l: "length (rows u) = length (issue_comments c [issue_PRJ_1])"
    using comments_frame_length by blast
  have "length (rows u) = 1" unfolding l by (simp add: issue_comments_def assms)
  then have "rows u \<noteq> []" by auto
  with u show ?thesis by blast
qed

lemma all_parts_frames:
  assumes "p \<in> set (map fst data_part_settings)"
  shows "\<exists>u. data_part_to_dataframe client_all_parts [issue_PRJ_1] p = Inr u \<and> rows u \<noteq> []"
proof -
  from assms have "p \<in> set [''issues'', ''issue_components'', ''issue_labels'',
      ''issue_stakeholders''] \<or> p = ''issue_worklogs'' \<or> p = ''issue_comments''"
    unfolding registry by (simp add: disj_assoc)
  then show ?thesis
  proof (elim disjE)
    assume "p \<in> set [''issues'', ''issue_components'', ''issue_labels'', ''issue_stakeholders'']"
    then show ?thesis by (rule four_parts_frames)
  next
    assume "p = ''issue_worklogs''"
    then show ?thesis using all_parts_worklogs by simp
  next
    assume "p = ''issue_comments''"
    moreover have "comments client_all_parts = (\<lambda>issue. [anonymous_comment])"
      by (simp add: client_all_parts_def)
    ultimately show ?thesis using one_comment_frame by simp
  qed
qed

lemma sync_all_parts_done:
  "\<exists>st'. get_project_data sync_all_parts PyNone = (Inr True, st')"
proof -
  let ?st1 = "sync_all_parts\<lparr>self_issues := [issue_PRJ_1],
                  requests := requests sync_all_parts @ [(''project='' @ project_key sync_all_parts, 0)]\<rparr>"
  have s: "search_issues (jira_client sync_all_parts) (''project='' @ project_key sync_all_parts) 0
             = [issue_PRJ_1]"
    by (simp add: sync_all_parts_def client_all_parts_def)
  have c: "jira_client ?st1 = client_all_parts" and f: "files ?st1 = Map.empty"
    by (simp_all add: sync_all_parts_def first_sync_def)
  have "\<exists>st'. refresh_data_parts (map fst data_part_settings) [issue_PRJ_1] ?st1 = (Inr (), st')"
  proof (rule refresh_data_parts_first_sync)
    fix p assume p: "p \<in> set (map fst data_part_settings)"
    then show "\<exists>k. get_data_part_element p ''key_name'' = Inr k" by (rule registry_key_names)
    show "\<exists>u. data_part_to_dataframe (jira_client ?st1) [issue_PRJ_1] p = Inr u \<and> rows u \<noteq> []"
      unfolding c using p by (rule all_parts_frames)
    show "files ?st1 (get_file_path_for_data_part ?st1 p) = None"
      unfolding f by simp
  next
    show "distinct (map (get_file_path_for_data_part ?st1) (map fst data_part_settings))"
      by (rule registry_paths_distinct)
  qed
  then obtain st' where loop:
    "refresh_data_parts (map fst data_part_settings) [issue_PRJ_1] ?st1 = (Inr (), st')"
    by blast
  have "project_key sync_all_parts \<noteq> []" "files sync_all_parts = Map.empty"
    by (simp_all add: sync_all_parts_def first_sync_def)
  then have g: "get_project_data sync_all_parts PyNone =
     (case refresh_data_parts (map fst data_part_settings)
              (search_issues (jira_client sync_all_parts) (''project='' @ project_key sync_all_parts) 0)
              (sync_all_parts\<lparr>self_issues := search_issues (jira_client sync_all_parts) (''project='' @ project_key sync_all_parts) 0,
                  requests := requests sync_all_parts @ [(''project='' @ project_key sync_all_parts, 0)]\<rparr>) of
        (Inl e, s) \<Rightarrow> (Inl e, s)
      | (Inr u, s) \<Rightarrow> (Inr True, s))"
    by (rule get_project_data_first_sync_loop)
  show ?thesis
    unfolding g s loop by simp
qed

section \<open>The outcome of the loop\<close>

lemma registry_split_components:
  "map fst data_part_settings =
     [''issues''] @ ''issue_components''
       # [''issue_labels'', ''issue_stakeholders'', ''issue_worklogs'', ''issue_comments'']"
  by (simp add: data_part_settings_def)

lemma no_components_loop:
  assumes "files st = Map.empty" "jira_client st = client_no_components"
    and "data_part_dataframes st ''issue_labels'' = None"
  obtains st2 where
    "refresh_data_parts (map fst data_part_settings) [issue_no_components] st = (Inl AttributeError, st2)"
    and "data_part_dataframes st2 ''issue_labels'' = None"
proof -
  have frames: "\<exists>u. data_part_to_dataframe (jira_client st) [issue_no_components] q = Inr u \<and> rows u \<noteq> []"
    if "q \<in> set [''issues'']" for q
  proof -
    obtain u where "data_part_to_dataframe (jira_client st) [issue_no_components] ''issues'' = Inr u"
      "length (rows u) = length [issue_no_components]"
      using issues_frame_length by blast
    with that show ?thesis by auto
  qed
  obtain st1 where 1: "refresh_data_parts [''issues''] [issue_no_components] st = (Inr (), st1)"
    and c: "jira_client st1 = jira_client st"
    and d: "\<And>q. q \<notin> set [''issues''] \<Longrightarrow> data_part_dataframes st1 q = data_part_dataframes st q"
    and f: "files st1 (get_file_path_for_data_part st1 ''issue_components'') = None"
    using first_sync_prefix [OF registry_split_components assms(1), of "[issue_no_components]"] frames
    by blast
  have k: "get_data_part_element ''issue_components'' ''key_name'' = Inr ''issue_component_key''"
    by (simp add: get_data_part_element_def data_part_settings_def)
  have u: "data_part_to_dataframe (jira_client st1) [issue_no_components] ''issue_components''
             = Inr empty_dataframe"
    by (simp add: data_part_to_dataframe_def issue_no_components_def)
  let ?st2 = "st1\<lparr>data_part_dataframes := (data_part_dataframes st1)(''issue_components'' \<mapsto> None)\<rparr>"
  have 2: "refresh_data_part st1 ''issue_components'' [issue_no_components] = (Inl AttributeError, ?st2)"
    using refresh_data_part_first_write [OF k u f] by (simp add: empty_dataframe_def)
  have 3: "refresh_data_parts (map fst data_part_settings) [issue_no_components] st
             = (Inl AttributeError, ?st2)"
    unfolding registry_split_components using 1 2 by (rule refresh_data_parts_abort)
  have "data_part_dataframes st1 ''issue_labels'' = None"
    using d [of "''issue_labels''"] assms(3) by simp
  then have 4: "data_part_dataframes ?st2 ''issue_labels'' = None" by simp
  from 3 4 that show thesis by blast
qed

text \<open>
  C5 fails on the code in its last part. For an issue without components and no stored
  components file the merge returns \<^verbatim>\<open>None\<close> without raising, but
  \<^verbatim>\<open>refresh_data_part\<close> then calls \<^verbatim>\<open>final_df.to_csv\<close> on it: the
  \<^verbatim>\<open>AttributeError\<close> ends \<^verbatim>\<open>get_project_data\<close> at the second data part, and the
  labels of the issue are never processed.
\<close>

theorem no_data_aborts_sync:
  "data_part_to_dataframe (jira_client sync_no_components) [issue_no_components] ''issue_components''
     = Inr empty_dataframe
   \<and> update_dataframe None (Some empty_dataframe) ''issue_component_key'' = Inr None
   \<and> fst (get_project_data sync_no_components PyNone) = Inl AttributeError
   \<and> \<not> processed (snd (get_project_data sync_no_components PyNone)) ''issue_labels''
   \<and> labels issue_no_components = [''bug'', ''ui'']"
proof -
  let ?st = "sync_no_components\<lparr>self_issues := search_issues (jira_client sync_no_components) (''project='' @ project_key sync_no_components) 0,
                  requests := requests sync_no_components @ [(''project='' @ project_key sync_no_components, 0)]\<rparr>"
  have s: "search_issues (jira_client sync_no_components) (''project='' @ project_key sync_no_components) 0
             = [issue_no_components]"
    by (simp add: sync_no_components_def client_no_components_def client_all_parts_def)
  have f: "files ?st = Map.empty" and c: "jira_client ?st = client_no_components"
    and d: "data_part_dataframes ?st ''issue_labels'' = None"
    by (simp_all add: sync_no_components_def first_sync_def)
  obtain st2 where loop: "refresh_data_parts (map fst data_part_settings) [issue_no_components] ?st
       = (Inl AttributeError, st2)"
    and d2: "data_part_dataframes st2 ''issue_labels'' = None"
    using no_components_loop [OF f c d] by blast
  have "project_key sync_no_components \<noteq> []" "files sync_no_components = Map.empty"
    by (simp_all add: sync_no_components_def first_sync_def)
  then have g: "get_project_data sync_no_components PyNone =
     (case refresh_data_parts (map fst data_part_settings)
              (search_issues (jira_client sync_no_components) (''project='' @ project_key sync_no_components) 0)
              ?st of
        (Inl e, s) \<Rightarrow> (Inl e, s)
      | (Inr u, s) \<Rightarrow> (Inr True, s))"
    by (rule get_project_data_first_sync_loop)
  have g': "get_project_data sync_no_components PyNone = (Inl AttributeError, st2)"
    unfolding g unfolding s [THEN arg_cong, of "\<lambda>x. refresh_data_parts (map fst data_part_settings) x ?st"] loop
    by simp
  have 1: "data_part_to_dataframe (jira_client sync_no_components) [issue_no_components]
             ''issue_components'' = Inr empty_dataframe"
    by (simp add: data_part_to_dataframe_def issue_no_components_def)
  have 2: "update_dataframe None (Some empty_dataframe) ''issue_component_key'' = Inr None"
    by (simp add: update_dataframe_def dataframe_has_rows_def empty_dataframe_def)
  have 3: "\<not> processed st2 ''issue_labels''"
    by (simp add: processed_def d2)
  have 4: "labels issue_no_components = [''bug'', ''ui'']"
    by (simp add: issue_no_components_def issue_PRJ_1_def)
  from 1 2 3 4 show ?thesis by (simp add: g')
qed

section \<open>A data part without rows in the middle of the registry\<close>

lemma registry_split_labels:
  "map fst data_part_settings =
     [''issues'', ''issue_components''] @ ''issue_labels''
       # [''issue_stakeholders'', ''issue_worklogs'', ''issue_comments'']"
  by (simp add: data_part_settings_def)

lemma no_labels_frames:
  assumes "q \<in> set [''issues'', ''issue_components'']"
  shows "\<exists>u. data_part_to_dataframe c [issue_no_labels] q = Inr u \<and> rows u \<noteq> []"
proof -
  from assms have "q = ''issues'' \<or> q = ''issue_components''" by simp
  then show ?thesis
  proof
    assume q: "q = ''issues''"
    obtain u where "data_part_to_dataframe c [issue_no_labels] ''issues'' = Inr u"
      "length (rows u) = length [issue_no_labels]"
      using issues_frame_length by blast
    with q show ?thesis by auto
  next
    assume q: "q = ''issue_components''"
    obtain u where "data_part_to_dataframe c [issue_no_labels] ''issue_components'' = Inr u"
      "length (rows u) = sum_list (map (\<lambda>issue. length (components issue)) [issue_no_labels])"
      using components_frame_length by blast
    with q show ?thesis by (auto simp: issue_no_labels_def issue_PRJ_1_def)
  qed
qed

lemma no_labels_loop:
  assumes "files st = Map.empty" "jira_client st = client_no_labels"
    and "data_part_dataframes st = Map.empty"
  obtains st2 where
    "refresh_data_parts (map fst data_part_settings) [issue_no_labels] st = (Inl AttributeError, st2)"
    and "map (processed st2) (map fst data_part_settings) = [True, True, False, False, False, False]"
proof -
  let ?pre = "[''issues'', ''issue_components'']"
  obtain st1 where 1: "refresh_data_parts ?pre [issue_no_labels] st = (Inr (), st1)"
    and c: "jira_client st1 = jira_client st"
    and d: "\<And>q. q \<notin> set ?pre \<Longrightarrow> data_part_dataframes st1 q = data_part_dataframes st q"
    and f: "files st1 (get_file_path_for_data_part st1 ''issue_labels'') = None"
    using first_sync_prefix [OF registry_split_labels assms(1), of "[issue_no_labels]"]
      no_labels_frames [of _ "jira_client st"]
    by blast
  have p1: "processed st1 ''issues''" "processed st1 ''issue_components''"
    using refresh_data_parts_processed [OF 1] by simp_all
  have k: "get_data_part_element ''issue_labels'' ''key_name'' = Inr ''issue_label_key''"
    by (simp add: get_data_part_element_def data_part_settings_def)
  have u: "data_part_to_dataframe (jira_client st1) [issue_no_labels] ''issue_labels''
             = Inr empty_dataframe"
    by (simp add: data_part_to_dataframe_def issue_no_labels_def)
  define st2 where "st2 = st1\<lparr>data_part_dataframes := (data_part_dataframes st1)(''issue_labels'' \<mapsto> None)\<rparr>"
  have 2: "refresh_data_part st1 ''issue_labels'' [issue_no_labels] = (Inl AttributeError, st2)"
    using refresh_data_part_first_write [OF k u f] by (simp add: empty_dataframe_def st2_def)
  have 3: "refresh_data_parts (map fst data_part_settings) [issue_no_labels] st
             = (Inl AttributeError, st2)"
    unfolding registry_split_labels using 1 2 by (rule refresh_data_parts_abort)
  have path: "get_file_path_for_data_part st2 q = get_file_path_for_data_part st1 q" for q
    by (rule path_cong) (simp_all add: st2_def)
  have f2: "files st2 = files st1" by (simp add: st2_def)
  have a: "processed st2 ''issues''"
    using p1(1) by (simp add: processed_def path f2) (simp add: st2_def)
  have b: "processed st2 ''issue_components''"
    using p1(2) by (simp add: processed_def path f2) (simp add: st2_def)
  have l: "\<not> processed st2 ''issue_labels''"
    by (simp add: processed_def st2_def)
  have rest: "\<not> processed st2 q" if n: "q \<notin> set ?pre" and m: "q \<noteq> ''issue_labels''" for q
  proof -
    have "data_part_dataframes st1 q = None" using d [OF n] assms(3) by simp
    with m have "data_part_dataframes st2 q = None" by (simp add: st2_def)
    then show ?thesis by (simp add: processed_def)
  qed
  have s1: "\<not> processed st2 ''issue_stakeholders''" by (rule rest) simp_all
  have s2: "\<not> processed st2 ''issue_worklogs''" by (rule rest) simp_all
  have s3: "\<not> processed st2 ''issue_comments''" by (rule rest) simp_all
  have 4: "map (processed st2) (map fst data_part_settings) = [True, True, False, False, False, False]"
    unfolding registry using a b l s1 s2 s3 by simp
  from 3 4 show thesis by (rule that)
qed

text \<open>
  C8 fails on the code, through the defect of C5. On a first synchronization of an issue
  that has stakeholders, a work-log entry and a comment but no labels, the loop
  processes the first two data parts of the registry; the merge of the third has no data
  and returns \<^verbatim>\<open>None\<close>, \<^verbatim>\<open>final_df.to_csv\<close> raises, and \<^verbatim>\<open>get_project_data\<close> ends with
  the \<^verbatim>\<open>AttributeError\<close>: the three data parts after it are never processed.
\<close>

theorem get_project_data_stops_at_empty_table:
  "fst (get_project_data sync_no_labels PyNone) = Inl AttributeError
   \<and> map fst data_part_settings =
       [''issues'', ''issue_components'', ''issue_labels'', ''issue_stakeholders'',
        ''issue_worklogs'', ''issue_comments'']
   \<and> map (processed (snd (get_project_data sync_no_labels PyNone))) (map fst data_part_settings)
       = [True, True, False, False, False, False]
   \<and> labels issue_no_labels = []
   \<and> customfield_10800 issue_no_labels = Some [''Alice'', ''Bob'']
   \<and> worklogs (jira_client sync_no_labels) issue_no_labels = [logged_work]
   \<and> comments (jira_client sync_no_labels) issue_no_labels = [anonymous_comment]"
proof -
  let ?st = "sync_no_labels\<lparr>self_issues := search_issues (jira_client sync_no_labels) (''project='' @ project_key sync_no_labels) 0,
                  requests := requests sync_no_labels @ [(''project='' @ project_key sync_no_labels, 0)]\<rparr>"
  have s: "search_issues (jira_client sync_no_labels) (''project='' @ project_key sync_no_labels) 0
             = [issue_no_labels]"
    by (simp add: sync_no_labels_def client_no_labels_def client_all_parts_def)
  have f: "files ?st = Map.empty" and c: "jira_client ?st = client_no_labels"
    and d: "data_part_dataframes ?st = Map.empty"
    by (simp_all add: sync_no_labels_def first_sync_def)
  obtain st2 where loop: "refresh_data_parts (map fst data_part_settings) [issue_no_labels] ?st
       = (Inl AttributeError, st2)"
    and p: "map (processed st2) (map fst data_part_settings) = [True, True, False, False, False, False]"
    by (rule no_labels_loop [OF f c d])
  have "project_key sync_no_labels \<noteq> []" "files sync_no_labels = Map.empty"
    by (simp_all add: sync_no_labels_def first_sync_def)
  then have g: "get_project_data sync_no_labels PyNone =
     (case refresh_data_parts (map fst data_part_settings)
              (search_issues (jira_client sync_no_labels) (''project='' @ project_key sync_no_labels) 0)
              ?st of
        (Inl e, s) \<Rightarrow> (Inl e, s)
      | (Inr u, s) \<Rightarrow> (Inr True, s))"
    by (rule get_project_data_first_sync_loop)
  have g': "get_project_data sync_no_labels PyNone = (Inl AttributeError, st2)"
    unfolding g unfolding s [THEN arg_cong, of "\<lambda>x. refresh_data_parts (map fst data_part_settings) x ?st"] loop
    by simp
  have 1: "fst (get_project_data sync_no_labels PyNone) = Inl AttributeError"
    and 2: "map (processed (snd (get_project_data sync_no_labels PyNone))) (map fst data_part_settings)
       = [True, True, False, False, False, False]"
    unfolding g' using p by simp_all
  have 3: "labels issue_no_labels = []"
    and 4: "customfield_10800 issue_no_labels = Some [''Alice'', ''Bob'']"
    by (simp_all add: issue_no_labels_def issue_PRJ_1_def)
  have 5: "worklogs (jira_client sync_no_labels) issue_no_labels = [logged_work]"
    and 6: "comments (jira_client sync_no_labels) issue_no_labels = [anonymous_comment]"
    by (simp_all add: sync_no_labels_def client_no_labels_def client_all_parts_def)
  from 1 registry 2 3 4 5 6 show ?thesis by (intro conjI)
qed

end
